theory Spec2Isabelle
  imports Complex_Main
begin

section \<open>Python values used by the bot\<close>

text \<open>
  Integers are Python's unbounded ints. A string whose characters the code never
  inspects (a path, a label, a title) is an Isabelle string.
  Optional dictionary entries are options: \<open>None\<close> stands for a key that is
  absent or whose value is Python's None (\<open>d.get(k)\<close> gives None in both cases).
\<close>

text \<open>The exception classes of downloader.py; \<open>OtherError\<close> is any other
  subclass of Exception (OSError, KeyError, an error of the fetch library or of the
  chat transport).\<close>

datatype exn = UnsupportedURLError | FileTooLargeError | DownloadFailedError | OtherError

text \<open>Truthiness of an optional integer, and Python's \<open>a or b\<close> on two of them.\<close>

definition truthy :: "int option \<Rightarrow> bool" where
  "truthy a = (case a of None \<Rightarrow> False | Some n \<Rightarrow> n \<noteq> 0)"

definition py_or :: "int option \<Rightarrow> int option \<Rightarrow> int option" where
  "py_or a b = (if truthy a then a else b)"

definition truthy_str :: "string option \<Rightarrow> bool" where
  "truthy_str a = (case a of None \<Rightarrow> False | Some s \<Rightarrow> s \<noteq> [])"

definition py_or_str :: "string option \<Rightarrow> string option \<Rightarrow> string option" where
  "py_or_str a b = (if truthy_str a then a else b)"

section \<open>Regular expressions: SUPPORTED_DOMAINS\<close>

text \<open>A Python \<open>str\<close> that the code inspects character by character (a URL, the text
  of a message) is the list of its code points. \<open>ustr_of\<close> writes such a string from a
  literal.\<close>

type_synonym ustr = "int list"

definition ustr_of :: "string \<Rightarrow> ustr" where
  "ustr_of s = map of_char s"

text \<open>ASCII lower-casing of one character of a pattern.\<close>

definition lower_chr :: "char \<Rightarrow> char" where
  "lower_chr c = (let n = (of_char c :: nat) in
     if 65 \<le> n \<and> n \<le> 90 then char_of (n + 32) else c)"

text \<open>With re.IGNORECASE on a \<open>str\<close> pattern the matching is Unicode-aware: the
  character of the subject is lower-cased by the Unicode simple mapping and looked up
  among the lower-cased character of the pattern and its extra case equivalents.
  \<open>uni_lower\<close> is that mapping on the code points it sends to an ASCII letter (A to Z,
  U+0130 to i, the Kelvin sign U+212A to k) and the identity elsewhere: the patterns here
  are ASCII, so no other value of it is ever compared. The extra equivalents of an ASCII
  letter are the dotless i U+0131 for i and the long s U+017F for s.\<close>

definition uni_lower :: "int \<Rightarrow> int" where
  "uni_lower x =
     (if 65 \<le> x \<and> x \<le> 90 then x + 32
      else if x = 304 then 105
      else if x = 8490 then 107
      else x)"

definition case_equivalents :: "int \<Rightarrow> int list" where
  "case_equivalents lo = (if lo = 105 then [305] else if lo = 115 then [383] else [])"

definition ci_eq :: "char \<Rightarrow> int \<Rightarrow> bool" where
  "ci_eq p x =
     (let lo = (of_char (lower_chr p) :: int)
      in uni_lower x \<in> set (lo # case_equivalents lo))"

text \<open>The fragment of regular expressions the pattern uses: literals (compared
  case-insensitively), concatenation, alternation and the greedy optional group.
  \<open>rx_run r s\<close> lists, in backtracking order, what is left of \<open>s\<close> after each way
  of matching \<open>r\<close> at its start; \<open>re_match\<close> is \<open>pattern.match(s)\<close> being not None.\<close>

datatype rx = Lit string | Cat rx rx | Alt rx rx | Opt rx

fun rx_run :: "rx \<Rightarrow> ustr \<Rightarrow> ustr list" where
  "rx_run (Lit p) s =
     (if length p \<le> length s \<and> list_all2 ci_eq p (take (length p) s)
      then [drop (length p) s] else [])"
| "rx_run (Cat a b) s = concat (map (rx_run b) (rx_run a s))"
| "rx_run (Alt a b) s = rx_run a s @ rx_run b s"
| "rx_run (Opt a) s = rx_run a s @ [s]"

definition re_match :: "rx \<Rightarrow> ustr \<Rightarrow> bool" where
  "re_match r s = (rx_run r s \<noteq> [])"

text \<open>\<^verbatim>\<open>https?://(?:(?:www|m)\.)?(youtube\.com|youtu\.be|instagram\.com|instagr\.am)/\<close>
  compiled with re.IGNORECASE.\<close>

definition SUPPORTED_DOMAINS :: rx where
  "SUPPORTED_DOMAINS =
     Cat (Lit ''http'') (Cat (Opt (Lit ''s'')) (Cat (Lit ''://'')
       (Cat (Opt (Cat (Alt (Lit ''www'') (Lit ''m'')) (Lit ''.'')))
         (Cat (Alt (Lit ''youtube.com'') (Alt (Lit ''youtu.be'')
                 (Alt (Lit ''instagram.com'') (Lit ''instagr.am''))))
              (Lit ''/'')))))"

section \<open>downloader.py\<close>

subsection \<open>QUALITY_MAP and the options of the fetch library\<close>

definition QUALITY_MAP :: "(string \<times> string) list" where
  "QUALITY_MAP =
    [(''360p'', ''best[ext=mp4][height<=360][acodec!=none][vcodec!=none]/bestvideo[height<=360]+bestaudio/best''),
     (''480p'', ''best[ext=mp4][height<=480][acodec!=none][vcodec!=none]/bestvideo[height<=480]+bestaudio/best''),
     (''720p'', ''best[ext=mp4][height<=720][acodec!=none][vcodec!=none]/bestvideo[height<=720]+bestaudio/best''),
     (''1080p'', ''bestvideo[height<=1080]+bestaudio/best''),
     (''best'', ''bestvideo+bestaudio/best''),
     (''mp3'', ''bestaudio/best'')]"

text \<open>\<open>d.get(k, default)\<close> on a dictionary written as an association list.\<close>

definition dict_get :: "(string \<times> string) list \<Rightarrow> string \<Rightarrow> string \<Rightarrow> string" where
  "dict_get d k dflt = (case map_of d k of None \<Rightarrow> dflt | Some v \<Rightarrow> v)"

text \<open>\<open>QUALITY_MAP["best"]\<close>: a KeyError if the key were missing.\<close>

definition dict_index :: "(string \<times> string) list \<Rightarrow> string \<Rightarrow> exn + string" where
  "dict_index d k = (case map_of d k of None \<Rightarrow> Inl OtherError | Some v \<Rightarrow> Inr v)"

text \<open>A progress event of the fetch library (the dictionary passed to a hook).\<close>

record pevent =
  status :: "string option"
  total_bytes :: "int option"
  total_bytes_estimate :: "int option"
  downloaded_bytes :: "int option"

text \<open>A progress sink: the effect of a call is the caller's; here only whether it
  raises.\<close>

type_synonym sink = "pevent \<Rightarrow> exn option"

record postprocessor =
  pp_key :: string
  preferredcodec :: string
  preferredquality :: string

record ydl_opts =
  o_format :: string
  outtmpl :: string
  noplaylist :: bool
  quiet :: bool
  ignoreerrors :: bool
  progress_hooks :: "sink list"
  postprocessors :: "postprocessor list option"
  merge_output_format :: "string option"
  http_headers :: "(string \<times> string) list option"
  cookiefile :: "string option"
  ffmpeg_location :: string
  remote_components :: string
  js_runtimes :: "(string \<times> string) list"
  player_client :: "string list"
  concurrent_fragment_downloads :: int
  fragment_retries :: int
  retries :: int
  socket_timeout :: int

text \<open>\<open>a / b\<close> on paths.\<close>

definition path_join :: "string \<Rightarrow> string \<Rightarrow> string" where
  "path_join a b = a @ ''/'' @ b"

text \<open>The closure \<open>_hook\<close> of \<open>_build_opts\<close>: forward the event to the sink, then
  abort when a reported total exceeds the limit.\<close>

definition hook :: "int \<Rightarrow> sink option \<Rightarrow> sink" where
  "hook max_file_bytes progress_cb d =
     (case (case progress_cb of None \<Rightarrow> None | Some cb \<Rightarrow> cb d) of
        Some e \<Rightarrow> Some e
      | None \<Rightarrow>
          (let total = py_or (total_bytes d) (total_bytes_estimate d) in
           if truthy total \<and> the total > max_file_bytes then Some FileTooLargeError
           else None))"

text \<open>\<open>_build_opts\<close>; \<open>home\<close> is \<open>Path.home()\<close>.\<close>

definition build_opts ::
  "string \<Rightarrow> ustr \<Rightarrow> string \<Rightarrow> string \<Rightarrow> int \<Rightarrow> sink option \<Rightarrow> string option \<Rightarrow>
   string option \<Rightarrow> exn + ydl_opts" where
  "build_opts home url quality_key tmp_dir max_file_bytes progress_cb user_agent cookies_path =
     (case dict_index QUALITY_MAP ''best'' of
        Inl e \<Rightarrow> Inl e
      | Inr best \<Rightarrow>
          (let format_selector = dict_get QUALITY_MAP quality_key best;
               is_audio = (quality_key = ''mp3'')
           in Inr \<lparr> o_format = format_selector,
                    outtmpl = path_join tmp_dir ''video.%(ext)s'',
                    noplaylist = True,
                    quiet = True,
                    ignoreerrors = False,
                    progress_hooks = [hook max_file_bytes progress_cb],
                    postprocessors =
                      (if is_audio
                       then Some [\<lparr> pp_key = ''FFmpegExtractAudio'', preferredcodec = ''mp3'',
                                    preferredquality = ''192'' \<rparr>]
                       else None),
                    merge_output_format = (if is_audio then None else Some ''mp4''),
                    http_headers =
                      (if truthy_str user_agent then Some [(''User-Agent'', the user_agent)]
                       else None),
                    cookiefile = cookies_path,
                    ffmpeg_location = path_join home ''ffmpeg'',
                    remote_components = ''ejs:github'',
                    js_runtimes = [(''deno'', path_join (path_join (path_join home ''.deno'') ''bin'') ''deno'')],
                    player_client = [''tv'', ''android''],
                    concurrent_fragment_downloads = 4,
                    fragment_retries = 10,
                    retries = 10,
                    socket_timeout = 30 \<rparr>))"

subsection \<open>The information dictionaries of the fetch library\<close>

record fmt =
  f_filesize :: "int option"
  f_filesize_approx :: "int option"

text \<open>An element of \<open>info["requested_downloads"]\<close>.\<close>

record dl_entry =
  d_filepath :: "string option"
  d_filesize :: "int option"
  d_title :: "string option"
  d_ext :: "string option"

text \<open>\<open>requested_downloads = None\<close> is the key being absent
  (\<open>"requested_downloads" in info\<close> is False).\<close>

record info =
  i_filesize :: "int option"
  i_filesize_approx :: "int option"
  i_formats :: "fmt list option"
  i_title :: "string option"
  requested_downloads :: "dl_entry list option"

text \<open>The loop over \<open>("filesize", "filesize_approx")\<close>: the first truthy value.\<close>

fun first_truthy :: "int option list \<Rightarrow> int option" where
  "first_truthy [] = None"
| "first_truthy (a # as) = (if truthy a then a else first_truthy as)"

text \<open>\<open>max(sizes)\<close> of a non-empty list.\<close>

fun list_max :: "int list \<Rightarrow> int" where
  "list_max [] = 0"
| "list_max (x # xs) = fold max xs x"

definition estimate_size :: "info \<Rightarrow> int option" where
  "estimate_size nfo =
     (case first_truthy [i_filesize nfo, i_filesize_approx nfo] of
        Some n \<Rightarrow> Some n
      | None \<Rightarrow>
          (let formats = (case i_formats nfo of None \<Rightarrow> [] | Some fs \<Rightarrow> fs);
               sizes = map (\<lambda>f. the (py_or (f_filesize f) (f_filesize_approx f)))
                         (filter (\<lambda>f. truthy (py_or (f_filesize f) (f_filesize_approx f))) formats)
           in if sizes \<noteq> [] then Some (list_max sizes) else None))"

subsection \<open>The world download_video acts on\<close>

text \<open>The calls made to the outside, in order.\<close>

datatype call =
    Mkdir string
  | Construct
  | ExtractInfo ustr bool
  | Progress pevent
  | PrepareFilename
  | Stat string

record world =
  dirs :: "string list"
  files :: "(string \<times> int) list"
  calls :: "call list"

definition log_call :: "call \<Rightarrow> world \<Rightarrow> world" where
  "log_call c w = w\<lparr>calls := calls w @ [c]\<rparr>"

text \<open>What the fetch library does during \<open>extract_info(url, download=True)\<close>: it
  writes files and fires progress events, in some order, and then returns or raises.\<close>

datatype step = Emit pevent | WriteFile string int

record ydl =
  probe :: "ustr \<Rightarrow> exn + info"
  transfer_steps :: "ustr \<Rightarrow> step list"
  transfer :: "ustr \<Rightarrow> exn + info"
  prepare_filename :: "info \<Rightarrow> string"

text \<open>The collaborators of download_video: \<open>mkdir_ok\<close> says whether
  \<open>tmp_path.mkdir(parents=True, exist_ok=True)\<close> succeeds, \<open>YoutubeDL\<close> is the
  constructor of the fetch library, \<open>path_stem\<close> and \<open>path_suffix\<close> are pathlib's
  \<open>Path.stem\<close> and \<open>Path.suffix\<close>, \<open>home\<close> is \<open>Path.home()\<close>.\<close>

record env =
  mkdir_ok :: bool
  YoutubeDL :: "ydl_opts \<Rightarrow> exn + ydl"
  path_stem :: "string \<Rightarrow> string"
  path_suffix :: "string \<Rightarrow> string"
  home :: string

definition mkdir :: "env \<Rightarrow> string \<Rightarrow> world \<Rightarrow> (exn + unit) \<times> world" where
  "mkdir e p w =
     (let w1 = log_call (Mkdir p) w in
      if mkdir_ok e
      then (Inr (), if p \<in> set (dirs w1) then w1 else w1\<lparr>dirs := dirs w1 @ [p]\<rparr>)
      else (Inl OtherError, w1))"

text \<open>\<open>file_path.stat().st_size\<close>: an OSError when the file is not there.\<close>

definition stat_size :: "string \<Rightarrow> world \<Rightarrow> (exn + int) \<times> world" where
  "stat_size p w =
     (case map_of (files w) p of
        None \<Rightarrow> (Inl OtherError, log_call (Stat p) w)
      | Some n \<Rightarrow> (Inr n, log_call (Stat p) w))"

text \<open>Every hook of the options is called on an event; the first that raises ends
  the run.\<close>

fun run_hooks :: "sink list \<Rightarrow> pevent \<Rightarrow> exn option" where
  "run_hooks [] d = None"
| "run_hooks (h # hs) d = (case h d of Some e \<Rightarrow> Some e | None \<Rightarrow> run_hooks hs d)"

fun run_steps :: "sink list \<Rightarrow> step list \<Rightarrow> world \<Rightarrow> exn option \<times> world" where
  "run_steps hs [] w = (None, w)"
| "run_steps hs (WriteFile p n # ss) w =
     run_steps hs ss (w\<lparr>files := (p, n) # files w\<rparr>)"
| "run_steps hs (Emit d # ss) w =
     (case run_hooks hs (d) of
        Some e \<Rightarrow> (Some e, log_call (Progress d) w)
      | None \<Rightarrow> run_steps hs ss (log_call (Progress d) w))"

text \<open>\<open>ydl.extract_info(url, download=True)\<close> with the hooks of the options.\<close>

definition extract_info_download ::
  "ydl_opts \<Rightarrow> ydl \<Rightarrow> ustr \<Rightarrow> world \<Rightarrow> (exn + info) \<times> world" where
  "extract_info_download opts y url w =
     (case run_steps (progress_hooks opts) (transfer_steps y url) (log_call (ExtractInfo url True) w) of
        (Some e, w1) \<Rightarrow> (Inl e, w1)
      | (None, w1) \<Rightarrow> (transfer y url, w1))"

subsection \<open>download_video\<close>

record download_result =
  r_file_path :: string
  r_title :: string
  r_ext :: string
  r_size :: int

text \<open>\<open>s.lstrip(".")\<close>.\<close>

definition lstrip_dot :: "string \<Rightarrow> string" where
  "lstrip_dot s = dropWhile (\<lambda>c. c = CHR ''.'') s"

text \<open>Lines 187 to 197: path, size, title and extension from the information
  returned by the transfer, in either of its two shapes.\<close>

definition read_result :: "env \<Rightarrow> ydl \<Rightarrow> info \<Rightarrow> world \<Rightarrow> (exn + download_result) \<times> world" where
  "read_result e y nfo w =
     (case requested_downloads nfo of
        Some ds \<Rightarrow>
          (case ds of
             [] \<Rightarrow> (Inl OtherError, w)
           | downloaded # _ \<Rightarrow>
               (case d_filepath downloaded of
                  None \<Rightarrow> (Inl OtherError, w)
                | Some file_path \<Rightarrow>
                    (case (if truthy (d_filesize downloaded)
                           then (Inr (the (d_filesize downloaded)), w)
                           else stat_size file_path w) of
                       (Inl x, w1) \<Rightarrow> (Inl x, w1)
                     | (Inr sz, w1) \<Rightarrow>
                         (Inr \<lparr> r_file_path = file_path,
                                r_title =
                                  (case py_or_str (py_or_str (d_title downloaded) (i_title nfo))
                                          (Some (path_stem e file_path)) of
                                     Some t \<Rightarrow> t | None \<Rightarrow> []),
                                r_ext =
                                  (case py_or_str (d_ext downloaded)
                                          (Some (lstrip_dot (path_suffix e file_path))) of
                                     Some x \<Rightarrow> x | None \<Rightarrow> []),
                                r_size = sz \<rparr>, w1))))
      | None \<Rightarrow>
          (let file_path = prepare_filename y nfo;
               w0 = log_call PrepareFilename w
           in case stat_size file_path w0 of
                (Inl x, w1) \<Rightarrow> (Inl x, w1)
              | (Inr sz, w1) \<Rightarrow>
                  (Inr \<lparr> r_file_path = file_path,
                         r_title =
                           (case py_or_str (i_title nfo) (Some (path_stem e file_path)) of
                              Some t \<Rightarrow> t | None \<Rightarrow> []),
                         r_ext = lstrip_dot (path_suffix e file_path),
                         r_size = sz \<rparr>, w1)))"

text \<open>The body of the \<open>try\<close> of download_video (lines 177 to 204).\<close>

definition download_body ::
  "env \<Rightarrow> ydl_opts \<Rightarrow> ustr \<Rightarrow> int \<Rightarrow> world \<Rightarrow> (exn + download_result) \<times> world" where
  "download_body e opts url max_file_bytes w =
     (case YoutubeDL e opts of
        Inl x \<Rightarrow> (Inl x, log_call Construct w)
      | Inr y \<Rightarrow>
          (let w1 = log_call (ExtractInfo url False) (log_call Construct w) in
           case probe y url of
             Inl x \<Rightarrow> (Inl x, w1)
           | Inr nfo \<Rightarrow>
               (let est_size = estimate_size nfo in
                if truthy est_size \<and> the est_size > max_file_bytes
                then (Inl FileTooLargeError, w1)
                else
                  (case extract_info_download opts y url w1 of
                     (Inl x, w2) \<Rightarrow> (Inl x, w2)
                   | (Inr nfo2, w2) \<Rightarrow>
                       (case read_result e y nfo2 w2 of
                          (Inl x, w3) \<Rightarrow> (Inl x, w3)
                        | (Inr res, w3) \<Rightarrow>
                            if r_size res > max_file_bytes
                            then (Inl FileTooLargeError, w3)
                            else (Inr res, w3))))))"

text \<open>The \<open>except\<close> clauses: FileTooLargeError and UnsupportedURLError are raised
  again, any other exception becomes DownloadFailedError.\<close>

definition reraise :: "exn \<Rightarrow> exn" where
  "reraise x =
     (case x of FileTooLargeError \<Rightarrow> FileTooLargeError
      | UnsupportedURLError \<Rightarrow> UnsupportedURLError
      | _ \<Rightarrow> DownloadFailedError)"

definition download_video ::
  "env \<Rightarrow> ustr \<Rightarrow> string \<Rightarrow> string \<Rightarrow> int \<Rightarrow> sink option \<Rightarrow> string option \<Rightarrow>
   string option \<Rightarrow> world \<Rightarrow> (exn + download_result) \<times> world" where
  "download_video e url quality_key tmp_dir max_file_bytes progress_cb user_agent cookies_path w =
     (if \<not> re_match SUPPORTED_DOMAINS url then (Inl UnsupportedURLError, w)
      else
        (case mkdir e tmp_dir w of
           (Inl x, w1) \<Rightarrow> (Inl x, w1)
         | (Inr _, w1) \<Rightarrow>
             (case build_opts (home e) url quality_key tmp_dir max_file_bytes progress_cb
                     user_agent cookies_path of
                Inl x \<Rightarrow> (Inl x, w1)
              | Inr opts \<Rightarrow>
                  (case download_body e opts url max_file_bytes w1 of
                     (Inl x, w2) \<Rightarrow> (Inl (reraise x), w2)
                   | (Inr res, w2) \<Rightarrow> (Inr res, w2)))))"

section \<open>bot.py\<close>

subsection \<open>sanitize\_url\<close>

text \<open>\<open>str.isspace\<close> of a code point.\<close>

definition is_space :: "int \<Rightarrow> bool" where
  "is_space c =
     (c \<in> {9, 10, 11, 12, 13, 28, 29, 30, 31, 32, 133, 160, 5760, 8232, 8233, 8239, 8287, 12288}
      \<or> (8192 \<le> c \<and> c \<le> 8202))"

text \<open>\<open>s.strip()\<close>.\<close>

definition strip :: "ustr \<Rightarrow> ustr" where
  "strip s = rev (dropWhile is_space (rev (dropWhile is_space s)))"

text \<open>\<open>sub in s\<close>.\<close>

fun contains :: "'a list \<Rightarrow> 'a list \<Rightarrow> bool" where
  "contains sub [] = (sub = [])"
| "contains sub (c # s) = (take (length sub) (c # s) = sub \<or> contains sub s)"

text \<open>\<open>s.split(sep, 1)[0]\<close> for a separator of one character.\<close>

definition split_first :: "'a \<Rightarrow> 'a list \<Rightarrow> 'a list" where
  "split_first sep s = takeWhile (\<lambda>c. c \<noteq> sep) s"

definition sanitize_url :: "ustr \<Rightarrow> ustr" where
  "sanitize_url url =
     (let clean = strip url;
          clean = (if contains (ustr_of ''youtube'') clean \<or> contains (ustr_of ''youtu.be'') clean
                   then split_first (of_char CHR ''&'') clean else clean);
          clean = (if contains (ustr_of ''instagram'') clean \<or> contains (ustr_of ''instagr.am'') clean
                   then split_first (of_char CHR ''?'') clean else clean)
      in clean)"

text \<open>\<open>_parse_url_from_command\<close>: \<open>message.text.split(maxsplit=1)\<close> cuts the first
  word off at whitespace and keeps the rest as one piece, which is then stripped.
  \<open>None\<close> stands for a message without text as well as for the result None.\<close>

definition parse_url_from_command :: "ustr option \<Rightarrow> ustr option" where
  "parse_url_from_command message_text =
     (case message_text of
        None \<Rightarrow> None
      | Some t \<Rightarrow>
          (if t = [] then None
           else
             (let s = dropWhile is_space t;
                  word = takeWhile (\<lambda>c. \<not> is_space c) s;
                  remainder = dropWhile is_space (dropWhile (\<lambda>c. \<not> is_space c) s)
              in if word = [] \<or> remainder = [] then None else Some (strip remainder))))"

subsection \<open>The host of a URL and the allow-list\<close>

text \<open>The allow-list as the specification words it: the four domains, each alone or
  behind \<open>www.\<close> or \<open>m.\<close>, compared without regard to the case of ASCII letters, as
  host names are.\<close>

definition allowed_hosts :: "string list" where
  "allowed_hosts =
     concat (map (\<lambda>p. map (\<lambda>d. p @ d)
                          [''youtube.com'', ''youtu.be'', ''instagram.com'', ''instagr.am''])
                 [[], ''www.'', ''m.''])"

text \<open>The host of a URL in the generic syntax \<open>scheme://userinfo@host:port/path\<close>: the
  string starts with a scheme (a letter, then letters, digits, plus, minus or dot)
  followed at once by \<open>://\<close>; the host is what comes next up to a slash, question mark
  or hash, without the user information and the port. Any other string has no host.\<close>

definition is_alpha :: "int \<Rightarrow> bool" where
  "is_alpha c = ((65 \<le> c \<and> c \<le> 90) \<or> (97 \<le> c \<and> c \<le> 122))"

definition is_scheme_chr :: "int \<Rightarrow> bool" where
  "is_scheme_chr c = (is_alpha c \<or> (48 \<le> c \<and> c \<le> 57) \<or> c = 43 \<or> c = 45 \<or> c = 46)"

definition url_host :: "ustr \<Rightarrow> ustr option" where
  "url_host u =
     (let scheme = takeWhile is_scheme_chr u;
          r = dropWhile is_scheme_chr u
      in if scheme \<noteq> [] \<and> is_alpha (hd scheme) \<and> take 3 r = ustr_of ''://''
         then
           (let authority = takeWhile (\<lambda>c. c \<notin> set (ustr_of ''/?#'')) (drop 3 r);
                hostport = rev (takeWhile (\<lambda>c. c \<noteq> of_char CHR ''@'') (rev authority))
            in Some (takeWhile (\<lambda>c. c \<noteq> of_char CHR '':'') hostport))
         else None)"

definition ascii_lower :: "int \<Rightarrow> int" where
  "ascii_lower c = (if 65 \<le> c \<and> c \<le> 90 then c + 32 else c)"

definition host_on_allow_list :: "ustr option \<Rightarrow> bool" where
  "host_on_allow_list h =
     (case h of
        None \<Rightarrow> False
      | Some x \<Rightarrow> map ascii_lower x \<in> set (map ustr_of allowed_hosts))"

subsection \<open>A stand-in for the fetch library\<close>

text \<open>The library double of tests/test\_downloader.py (DummyDL), with the estimate,
  what happens during the transfer, the size the library reports and the path of the
  downloaded file left open.\<close>

definition demo_ydl :: "int option \<Rightarrow> step list \<Rightarrow> int option \<Rightarrow> string \<Rightarrow> ydl" where
  "demo_ydl est steps reported path =
     \<lparr> probe = (\<lambda>url. Inr \<lparr> i_filesize = est, i_filesize_approx = None, i_formats = None,
                              i_title = Some ''Sample'', requested_downloads = None \<rparr>),
       transfer_steps = (\<lambda>url. steps),
       transfer = (\<lambda>url. Inr \<lparr> i_filesize = None, i_filesize_approx = None, i_formats = None,
                                 i_title = None,
                                 requested_downloads =
                                   Some [\<lparr> d_filepath = Some path, d_filesize = reported,
                                            d_title = Some ''Sample'', d_ext = Some ''mp4'' \<rparr>] \<rparr>),
       prepare_filename = (\<lambda>nfo. path) \<rparr>"

definition demo_env :: "ydl \<Rightarrow> env" where
  "demo_env y = \<lparr> mkdir_ok = True, YoutubeDL = (\<lambda>opts. Inr y), path_stem = (\<lambda>p. ''video''),
                  path_suffix = (\<lambda>p. ''.mp4''), home = ''/home/bot'' \<rparr>"

definition world0 :: world where
  "world0 = \<lparr> dirs = [], files = [], calls = [] \<rparr>"

subsection \<open>Formatting integers\<close>

text \<open>\<open>str(n)\<close> of an integer, as an f-string renders it: decimal digits, with a
  minus sign for a negative number.\<close>

definition digit_chr :: "int \<Rightarrow> char" where
  "digit_chr d = char_of (48 + d)"

function digits_str :: "int \<Rightarrow> string" where
  "digits_str n = (if n < 10 then [digit_chr n] else digits_str (n div 10) @ [digit_chr (n mod 10)])"
  by pat_completeness auto
termination
  by (relation "measure nat") auto

definition int_str :: "int \<Rightarrow> string" where
  "int_str i = (if i < 0 then CHR ''-'' # digits_str (- i) else digits_str i)"

text \<open>\<open>int(x)\<close> of a clock reading: truncation towards zero. Clock readings are
  rational numbers here.\<close>

definition py_int :: "rat \<Rightarrow> int" where
  "py_int x = (if 0 \<le> x then \<lfloor>x\<rfloor> else \<lceil>x\<rceil>)"

text \<open>\<open>s.upper()\<close> on ASCII letters.\<close>

definition upper_chr :: "char \<Rightarrow> char" where
  "upper_chr c = (let n = (of_char c :: nat) in
     if 97 \<le> n \<and> n \<le> 122 then char_of (n - 32) else c)"

definition upper_str :: "string \<Rightarrow> string" where
  "upper_str s = map upper_chr s"

subsection \<open>The URL cache and the quality keyboard\<close>

definition QUALITY_ORDER :: "string list" where
  "QUALITY_ORDER = [''360p'', ''480p'', ''720p'', ''1080p'', ''best'', ''mp3'']"

record settings =
  download_path :: string
  max_file_bytes :: int
  ytdlp_user_agent :: "string option"
  ytdlp_cookies_path :: "string option"

text \<open>The module state of bot.py (\<open>_url_cache\<close>, \<open>_url_counter\<close>) and the disk.\<close>

record bot =
  url_cache :: "(string \<times> ustr) list"
  url_counter :: int
  disk :: world

definition store_url :: "ustr \<Rightarrow> bot \<Rightarrow> string \<times> bot" where
  "store_url url b =
     (let n = url_counter b + 1;
          key = ''u'' @ int_str n
      in (key, b\<lparr>url_counter := n, url_cache := (key, url) # url_cache b\<rparr>))"

definition get_url :: "string \<Rightarrow> bot \<Rightarrow> ustr option" where
  "get_url key b = map_of (url_cache b) key"

text \<open>The buttons of \<open>quality_keyboard\<close>: the label and the callback data of each.\<close>

definition quality_keyboard :: "ustr \<Rightarrow> bot \<Rightarrow> (string \<times> string) list \<times> bot" where
  "quality_keyboard url b =
     (case store_url url b of
        (url_key, b1) \<Rightarrow>
          (map (\<lambda>q. (upper_str q, ''DL|'' @ url_key @ ''|'' @ q)) QUALITY_ORDER, b1))"

subsection \<open>The chat transport\<close>

text \<open>The places where a handler calls the chat transport. Every such call can raise;
  \<open>raises c s\<close> says whether the call at \<open>s\<close> does in the run at hand. \<open>member c\<close> is
  what \<open>is_member\<close> returns (it catches every exception itself), \<open>rmtree_raises c\<close>
  whether deleting from the disk fails with an OSError.\<close>

datatype site =
    AnswerUnsupported | AnswerGate | AnswerQuality
  | AlertBadRequest | AlertStale | EditSelected | AnswerProgress
  | EditUnsupported | EditTooLarge | EditFailed | EditUnexpected
  | EditLimit | SendAudio | SendVideo | DeleteProgress | EditSendError

record chat =
  member :: bool
  raises :: "site \<Rightarrow> bool"
  rmtree_raises :: bool

text \<open>What a handler does, in order: a call of the transport at a site, the membership
  check, the dispatch of download\_video to the worker, a call of safe\_remove.\<close>

datatype act = Ui site | MemberCheck | Dispatch ustr string string | Remove string

subsection \<open>prompt\_for\_quality\<close>

definition prompt_for_quality :: "chat \<Rightarrow> ustr \<Rightarrow> bot \<Rightarrow> exn option \<times> act list \<times> bot" where
  "prompt_for_quality c url b =
     (let clean_url = sanitize_url url in
      if \<not> re_match SUPPORTED_DOMAINS clean_url
      then ((if raises c AnswerUnsupported then Some OtherError else None),
            [Ui AnswerUnsupported], b)
      else if \<not> member c
      then ((if raises c AnswerGate then Some OtherError else None),
            [MemberCheck, Ui AnswerGate], b)
      else
        (case quality_keyboard clean_url b of
           (keyboard, b1) \<Rightarrow>
             ((if raises c AnswerQuality then Some OtherError else None),
              [MemberCheck, Ui AnswerQuality], b1)))"

subsection \<open>safe\_remove\<close>

text \<open>\<open>x\<close> is \<open>p\<close> or lies under the directory \<open>p\<close>.\<close>

definition under :: "string \<Rightarrow> string \<Rightarrow> bool" where
  "under p x = (x = p \<or> take (length p + 1) x = p @ ''/'')"

definition path_exists :: "string \<Rightarrow> world \<Rightarrow> bool" where
  "path_exists p w = (p \<in> set (dirs w) \<or> p \<in> fst ` set (files w))"

text \<open>utils.safe\_remove: nothing to do for a path that does not exist; otherwise
  \<open>shutil.rmtree\<close> for a directory and \<open>unlink\<close> for a file, where an OSError is
  logged and swallowed.\<close>

definition safe_remove :: "bool \<Rightarrow> string \<Rightarrow> world \<Rightarrow> (exn + unit) \<times> world" where
  "safe_remove os_error p w =
     (if \<not> path_exists p w then (Inr (), w)
      else if os_error then (Inr (), w)
      else if p \<in> set (dirs w)
      then (Inr (), w\<lparr>dirs := filter (\<lambda>d. \<not> under p d) (dirs w),
                     files := filter (\<lambda>f. \<not> under p (fst f)) (files w)\<rparr>)
      else (Inr (), w\<lparr>files := filter (\<lambda>f. fst f \<noteq> p) (files w)\<rparr>))"

subsection \<open>The progress throttle\<close>

text \<open>What \<open>progress_cb\<close> renders: the text is made from these two numbers.\<close>

record progress_text =
  pt_downloaded :: int
  pt_total :: int

text \<open>\<open>progress_cb\<close>: \<open>Some t\<close> when it schedules \<open>throttled_edit\<close> with the text of
  \<open>t\<close>, \<open>None\<close> when it returns without doing so.\<close>

definition progress_cb :: "pevent \<Rightarrow> progress_text option" where
  "progress_cb d =
     (if status d \<noteq> Some ''downloading'' then None
      else
        (let total = py_or (total_bytes d) (total_bytes_estimate d);
             downloaded = (if truthy (downloaded_bytes d) then the (downloaded_bytes d) else 0)
         in if \<not> truthy total then None
            else Some \<lparr> pt_downloaded = downloaded, pt_total = the total \<rparr>))"

text \<open>The closure state \<open>last_update["ts"]\<close>, and the calls of
  \<open>progress_msg.edit_text\<close> made so far: when, with what, and whether the call
  succeeded.\<close>

record throttle =
  last_ts :: rat
  edits :: "(rat \<times> progress_text \<times> bool) list"

definition throttle0 :: throttle where
  "throttle0 = \<lparr> last_ts = 0, edits = [] \<rparr>"

text \<open>\<open>throttled_edit\<close>, run at the clock reading \<open>now\<close>; \<open>edit_raises\<close> says
  whether \<open>edit_text\<close> raises.\<close>

definition throttled_edit ::
  "rat \<Rightarrow> bool \<Rightarrow> progress_text \<Rightarrow> throttle \<Rightarrow> (exn + unit) \<times> throttle" where
  "throttled_edit now edit_raises body t =
     (if now - last_ts t < 3 / 2 then (Inr (), t)
      else (Inr (), t\<lparr>last_ts := now, edits := edits t @ [(now, body, \<not> edit_raises)]\<rparr>))"

text \<open>A raw progress event together with the clock reading and the fate of the edit
  of the task it schedules.\<close>

fun run_throttle :: "(pevent \<times> rat \<times> bool) list \<Rightarrow> throttle \<Rightarrow> throttle" where
  "run_throttle [] t = t"
| "run_throttle ((d, now, edit_raises) # es) t =
     (case progress_cb d of
        None \<Rightarrow> run_throttle es t
      | Some body \<Rightarrow> run_throttle es (snd (throttled_edit now edit_raises body t)))"

text \<open>The sink handed to download\_video: \<open>progress_cb\<close> returns without raising.\<close>

definition bot_sink :: sink where
  "bot_sink d = (case progress_cb d of None \<Rightarrow> None | Some body \<Rightarrow> None)"

subsection \<open>handle\_download\_callback\<close>

text \<open>\<open>data.split("|", 2)\<close>.\<close>

definition split2 :: "string \<Rightarrow> string list" where
  "split2 s =
     (let bar = (\<lambda>c. c \<noteq> CHR ''|'');
          a = takeWhile bar s; r = dropWhile bar s
      in if r = [] then [a]
         else (let s2 = tl r; b = takeWhile bar s2; r2 = dropWhile bar s2
               in if r2 = [] then [a, b] else [a, b, tl r2]))"

definition tmp_dir_for :: "string \<Rightarrow> int \<Rightarrow> rat \<Rightarrow> string" where
  "tmp_dir_for dl_path user_id now =
     path_join dl_path (''dl_'' @ int_str user_id @ ''_'' @ int_str (py_int now))"

text \<open>An \<open>except\<close> clause of lines 243 to 260: edit the progress message, then
  safe\_remove, then return.\<close>

definition report_failure ::
  "chat \<Rightarrow> site \<Rightarrow> string \<Rightarrow> bot \<Rightarrow> exn option \<times> act list \<times> bot" where
  "report_failure c s tmp_dir b =
     (if raises c s then (Some OtherError, [Ui s], b)
      else (None, [Ui s, Remove tmp_dir],
            b\<lparr>disk := snd (safe_remove (rmtree_raises c) tmp_dir (disk b))\<rparr>))"

text \<open>Lines 262 to 281: the \<open>try\<close> that sends the file, its \<open>except\<close> and its
  \<open>finally\<close>. The first component of \<open>tried\<close> says whether the body raised.\<close>

definition deliver ::
  "chat \<Rightarrow> settings \<Rightarrow> string \<Rightarrow> download_result \<Rightarrow> bot \<Rightarrow> exn option \<times> act list \<times> bot" where
  "deliver c st tmp_dir res b =
     (let rm = (\<lambda>x. x\<lparr>disk := snd (safe_remove (rmtree_raises c) tmp_dir (disk x))\<rparr>);
          send = (if r_ext res = ''mp3'' then SendAudio else SendVideo);
          tried =
            (if r_size res > max_file_bytes st
             then (if raises c EditLimit then (True, [Ui EditLimit], b)
                   else (False, [Ui EditLimit, Remove tmp_dir], rm b))
             else if raises c send then (True, [Ui send], b)
             else if raises c DeleteProgress then (True, [Ui send, Ui DeleteProgress], b)
             else (False, [Ui send, Ui DeleteProgress], b))
      in case tried of
           (False, acts, b1) \<Rightarrow> (None, acts @ [Remove tmp_dir], rm b1)
         | (True, acts, b1) \<Rightarrow>
             ((if raises c EditSendError then Some OtherError else None),
              acts @ [Ui EditSendError, Remove tmp_dir], rm b1))"

definition handle_download_callback ::
  "env \<Rightarrow> settings \<Rightarrow> chat \<Rightarrow> int \<Rightarrow> rat \<Rightarrow> string \<Rightarrow> bot \<Rightarrow> exn option \<times> act list \<times> bot" where
  "handle_download_callback e st c user_id now callback_data b =
     (case split2 callback_data of
        [tag, url_key, quality] \<Rightarrow>
          (case get_url url_key b of
             None \<Rightarrow> ((if raises c AlertStale then Some OtherError else None), [Ui AlertStale], b)
           | Some url \<Rightarrow>
               if url = [] then
                 ((if raises c AlertStale then Some OtherError else None), [Ui AlertStale], b)
               else if \<not> member c then
                 ((if raises c AnswerGate then Some OtherError else None),
                  [Ui EditSelected, MemberCheck, Ui AnswerGate], b)
               else if raises c AnswerProgress then
                 (Some OtherError, [Ui EditSelected, MemberCheck, Ui AnswerProgress], b)
               else
                 (let tmp_dir = tmp_dir_for (download_path st) user_id now;
                      pre = [Ui EditSelected, MemberCheck, Ui AnswerProgress,
                             Dispatch url quality tmp_dir]
                  in case download_video e url quality tmp_dir (max_file_bytes st) (Some bot_sink)
                            (ytdlp_user_agent st) (ytdlp_cookies_path st) (disk b) of
                       (r, w) \<Rightarrow>
                         (case (case r of
                                  Inl UnsupportedURLError \<Rightarrow>
                                    report_failure c EditUnsupported tmp_dir (b\<lparr>disk := w\<rparr>)
                                | Inl FileTooLargeError \<Rightarrow>
                                    report_failure c EditTooLarge tmp_dir (b\<lparr>disk := w\<rparr>)
                                | Inl DownloadFailedError \<Rightarrow>
                                    report_failure c EditFailed tmp_dir (b\<lparr>disk := w\<rparr>)
                                | Inl OtherError \<Rightarrow>
                                    report_failure c EditUnexpected tmp_dir (b\<lparr>disk := w\<rparr>)
                                | Inr res \<Rightarrow> deliver c st tmp_dir res (b\<lparr>disk := w\<rparr>)) of
                            (x, acts, b1) \<Rightarrow> (x, pre @ acts, b1))))
      | _ \<Rightarrow> ((if raises c AlertBadRequest then Some OtherError else None),
              [Ui AlertBadRequest], b))"

text \<open>One request: the link is sent and answered by prompt\_for\_quality; when that has
  shown the keyboard without raising, the button of \<open>quality\<close> is pressed (its data
  holds the key just stored, \<open>u\<close> and the counter) and handle\_download\_callback runs.
  The acts of both, in order.\<close>

definition request_acts ::
  "env \<Rightarrow> settings \<Rightarrow> chat \<Rightarrow> chat \<Rightarrow> int \<Rightarrow> rat \<Rightarrow> ustr \<Rightarrow> string \<Rightarrow> bot \<Rightarrow> act list" where
  "request_acts e st c1 c2 user_id now url quality b =
     (case prompt_for_quality c1 url b of
        (x1, acts1, b1) \<Rightarrow>
          if x1 \<noteq> None \<or> Ui AnswerQuality \<notin> set acts1 then acts1
          else
            (case handle_download_callback e st c2 user_id now
                    (''DL|'' @ (''u'' @ int_str (url_counter b1)) @ ''|'' @ quality) b1 of
               (x2, acts2, b2) \<Rightarrow> acts1 @ acts2))"

text \<open>\<open>earlier a b xs\<close>: the first \<open>b\<close> of \<open>xs\<close>, if there is one, has an \<open>a\<close> before
  it.\<close>

fun earlier :: "'a \<Rightarrow> 'a \<Rightarrow> 'a list \<Rightarrow> bool" where
  "earlier a b [] = True"
| "earlier a b (x # xs) = (if x = a then True else if x = b then False else earlier a b xs)"

definition bot0 :: bot where
  "bot0 = \<lparr> url_cache = [], url_counter = 0, disk = world0 \<rparr>"

text \<open>The invariant of the throttle: the edits made so far lie at least 3/2 apart,
  and none is later than \<open>last_ts\<close>.\<close>

definition spaced :: "throttle \<Rightarrow> bool" where
  "spaced t = (sorted_wrt (\<lambda>a b. a + 3 / 2 \<le> b) (map fst (edits t)) \<and>
               (\<forall>x \<in> set (map fst (edits t)). x \<le> last_ts t))"

text \<open>The acts that can follow a dispatch: edits of the progress message, the sending
  of the file, the removal of the directory.\<close>

definition quiet_act :: "act \<Rightarrow> bool" where
  "quiet_act a =
     (case a of
        Ui s \<Rightarrow> s \<noteq> AnswerGate \<and> s \<noteq> AnswerQuality
      | MemberCheck \<Rightarrow> False
      | Dispatch u q t \<Rightarrow> False
      | Remove p \<Rightarrow> True)"

section \<open>Properties of downloader.py\<close>

subsection \<open>The quality resolver\<close>

lemma build_opts_total:
  "\<exists>opts. build_opts h url q t m cb ua ck = Inr opts"
  by (simp add: build_opts_def dict_index_def QUALITY_MAP_def Let_def)

lemma dict_get_fallback:
  "q \<notin> {''360p'', ''480p'', ''720p'', ''1080p'', ''best'', ''mp3''} \<Longrightarrow>
   dict_get QUALITY_MAP q d = d"
  by (simp add: dict_get_def QUALITY_MAP_def)

lemma build_opts_fields:
  assumes "build_opts h url q t m cb ua ck = Inr opts"
  shows "o_format opts = dict_get QUALITY_MAP q ''bestvideo+bestaudio/best''"
    and "postprocessors opts =
          (if q = ''mp3'' then Some [\<lparr> pp_key = ''FFmpegExtractAudio'', preferredcodec = ''mp3'',
                                      preferredquality = ''192'' \<rparr>] else None)"
    and "merge_output_format opts = (if q = ''mp3'' then None else Some ''mp4'')"
    and "progress_hooks opts = [hook m cb]"
proof -
  have b: "dict_index QUALITY_MAP ''best'' = Inr ''bestvideo+bestaudio/best''"
    by (simp add: dict_index_def QUALITY_MAP_def)
  from assms show "o_format opts = dict_get QUALITY_MAP q ''bestvideo+bestaudio/best''"
    unfolding build_opts_def b by (auto simp: Let_def)
  from assms show "postprocessors opts =
          (if q = ''mp3'' then Some [\<lparr> pp_key = ''FFmpegExtractAudio'', preferredcodec = ''mp3'',
                                      preferredquality = ''192'' \<rparr>] else None)"
    unfolding build_opts_def b by (auto simp: Let_def)
  from assms show "merge_output_format opts = (if q = ''mp3'' then None else Some ''mp4'')"
    unfolding build_opts_def b by (auto simp: Let_def)
  from assms show "progress_hooks opts = [hook m cb]"
    unfolding build_opts_def b by (auto simp: Let_def)
qed

text \<open>
  C8. For every quality label outside the fixed set 360p, 480p, 720p, 1080p, best, mp3
  the lookup in QUALITY_MAP made by \<open>_build_opts\<close> yields the "best" selector and does
  not raise. Only the label mp3 asks for the audio-extraction post-processor with codec
  mp3 (and then no merged container is asked for); every other label asks for merged
  mp4 output and for no post-processor.
\<close>

theorem quality_resolver:
  "\<exists>opts. build_opts h url q t m cb ua ck = Inr opts \<and>
     (q \<notin> {''360p'', ''480p'', ''720p'', ''1080p'', ''best'', ''mp3''} \<longrightarrow>
        o_format opts = ''bestvideo+bestaudio/best'') \<and>
     (q = ''mp3'' \<longrightarrow>
        postprocessors opts = Some [\<lparr> pp_key = ''FFmpegExtractAudio'', preferredcodec = ''mp3'',
                                      preferredquality = ''192'' \<rparr>] \<and>
        merge_output_format opts = None) \<and>
     (q \<noteq> ''mp3'' \<longrightarrow> postprocessors opts = None \<and> merge_output_format opts = Some ''mp4'')"
proof -
  obtain opts where o: "build_opts h url q t m cb ua ck = Inr opts"
    using build_opts_total by blast
  show ?thesis
    using o build_opts_fields(1-3)[OF o] dict_get_fallback[of q "''bestvideo+bestaudio/best''"]
    by (cases "q = ''mp3''") simp_all
qed

theorem quality_resolver_witness:
  "(\<exists>opts. build_opts ''/root'' (ustr_of ''https://youtu.be/x'') ''4k'' ''tmp'' 1024 None None None = Inr opts \<and>
      o_format opts = ''bestvideo+bestaudio/best'' \<and>
      postprocessors opts = None \<and> merge_output_format opts = Some ''mp4'') \<and>
   (\<exists>opts. build_opts ''/root'' (ustr_of ''https://youtu.be/x'') ''mp3'' ''tmp'' 1024 None None None = Inr opts \<and>
      postprocessors opts = Some [\<lparr> pp_key = ''FFmpegExtractAudio'', preferredcodec = ''mp3'',
                                    preferredquality = ''192'' \<rparr>] \<and>
      merge_output_format opts = None)"
proof (rule conjI)
  show "\<exists>opts. build_opts ''/root'' (ustr_of ''https://youtu.be/x'') ''4k'' ''tmp'' 1024 None None None = Inr opts \<and>
      o_format opts = ''bestvideo+bestaudio/best'' \<and>
      postprocessors opts = None \<and> merge_output_format opts = Some ''mp4''"
    using quality_resolver[of "''/root''" "ustr_of ''https://youtu.be/x''" "''4k''" "''tmp''" 1024 None None None]
    by simp
  show "\<exists>opts. build_opts ''/root'' (ustr_of ''https://youtu.be/x'') ''mp3'' ''tmp'' 1024 None None None = Inr opts \<and>
      postprocessors opts = Some [\<lparr> pp_key = ''FFmpegExtractAudio'', preferredcodec = ''mp3'',
                                    preferredquality = ''192'' \<rparr>] \<and>
      merge_output_format opts = None"
    using quality_resolver[of "''/root''" "ustr_of ''https://youtu.be/x''" "''mp3''" "''tmp''" 1024 None None None]
    by simp
qed

subsection \<open>The size estimate\<close>

lemma fold_max_mem: "fold max xs (x::int) \<in> set (x # xs)"
  by (induction xs arbitrary: x) (auto simp: max_def)

lemma list_max_mem: "xs \<noteq> [] \<Longrightarrow> list_max xs \<in> set xs"
  using fold_max_mem by (cases xs) auto

lemma first_truthy_truthy: "first_truthy as = Some n \<Longrightarrow> n \<noteq> 0"
  by (induction as) (auto simp: truthy_def split: if_splits option.splits)

lemma truthy_the: "truthy a \<Longrightarrow> the a \<noteq> 0"
  by (cases a) (simp_all add: truthy_def)

lemma estimate_size_nonzero:
  assumes a: "estimate_size nfo = Some n"
  shows "n \<noteq> 0"
proof (cases "first_truthy [i_filesize nfo, i_filesize_approx nfo]")
  case (Some k)
  with a have "k = n" by (simp add: estimate_size_def del: first_truthy.simps)
  with Some show ?thesis using first_truthy_truthy by blast
next
  case None
  define formats where "formats = (case i_formats nfo of None \<Rightarrow> [] | Some fs \<Rightarrow> fs)"
  define sizes where "sizes = map (\<lambda>f. the (py_or (f_filesize f) (f_filesize_approx f)))
                       (filter (\<lambda>f. truthy (py_or (f_filesize f) (f_filesize_approx f))) formats)"
  have "estimate_size nfo = (if sizes \<noteq> [] then Some (list_max sizes) else None)"
    unfolding estimate_size_def sizes_def formats_def None by (simp add: Let_def)
  with a have ne: "sizes \<noteq> []" and n: "n = list_max sizes"
    by (simp_all split: if_splits)
  have "\<forall>k \<in> set sizes. k \<noteq> 0"
  proof
    fix k assume "k \<in> set sizes"
    then obtain f :: fmt where "truthy (py_or (f_filesize f) (f_filesize_approx f))"
      and "k = the (py_or (f_filesize f) (f_filesize_approx f))"
      unfolding sizes_def by auto
    then show "k \<noteq> 0" by (simp add: truthy_the)
  qed
  with list_max_mem[OF ne] n show ?thesis by simp
qed


subsection \<open>The ceiling on the size of a result\<close>

lemma download_body_size:
  assumes "download_body e opts url m w = (Inr res, w')"
  shows "r_size res \<le> m"
  using assms unfolding download_body_def Let_def
  by (simp split: sum.splits prod.splits if_splits)

lemma download_video_Inr:
  assumes "download_video e url q tmp m cb ua ck w = (Inr res, w')"
  shows "\<exists>opts w1. download_body e opts url m w1 = (Inr res, w')"
  using assms unfolding download_video_def
  by (auto split: sum.splits prod.splits if_splits)

lemma download_video_supported:
  assumes "re_match SUPPORTED_DOMAINS url"
    and "mkdir e tmp w = (Inr (), w1)"
    and "build_opts (home e) url q tmp m cb ua ck = Inr opts"
  shows "download_video e url q tmp m cb ua ck w =
           (case download_body e opts url m w1 of
              (Inl x, w2) \<Rightarrow> (Inl (reraise x), w2)
            | (Inr res, w2) \<Rightarrow> (Inr res, w2))"
  using assms unfolding download_video_def by simp

lemma read_result_files:
  assumes "read_result e y nfo w = (r, w')"
  shows "files w' = files w \<and> dirs w' = dirs w"
  using assms unfolding read_result_def stat_size_def log_call_def Let_def
  by (auto split: option.splits list.splits if_splits sum.splits prod.splits)

text \<open>
  C1. Whenever download\_video returns a DownloadResult, the size of the result does not
  exceed max\_file\_bytes. When the transfer has completed and the realized size exceeds
  the ceiling, download\_video raises FileTooLargeError instead of returning, and the
  files the transfer wrote are still there.
\<close>

theorem size_ceiling:
  "(\<forall>res w'. download_video e url q tmp m cb ua ck w = (Inr res, w') \<longrightarrow> r_size res \<le> m) \<and>
   (\<forall>w1 opts y nfo nfo2 w2 res w3.
      re_match SUPPORTED_DOMAINS url \<and>
      mkdir e tmp w = (Inr (), w1) \<and>
      build_opts (home e) url q tmp m cb ua ck = Inr opts \<and>
      YoutubeDL e opts = Inr y \<and>
      probe y url = Inr nfo \<and>
      \<not> (truthy (estimate_size nfo) \<and> the (estimate_size nfo) > m) \<and>
      extract_info_download opts y url
        (log_call (ExtractInfo url False) (log_call Construct w1)) = (Inr nfo2, w2) \<and>
      read_result e y nfo2 w2 = (Inr res, w3) \<and>
      r_size res > m
      \<longrightarrow> download_video e url q tmp m cb ua ck w = (Inl FileTooLargeError, w3) \<and>
          files w3 = files w2)"
proof (intro conjI allI impI)
  fix res w'
  assume "download_video e url q tmp m cb ua ck w = (Inr res, w')"
  then obtain opts w1 where "download_body e opts url m w1 = (Inr res, w')"
    using download_video_Inr by blast
  then show "r_size res \<le> m" by (rule download_body_size)
next
  fix w1 opts y nfo nfo2 w2 res w3
  assume h: "re_match SUPPORTED_DOMAINS url \<and>
      mkdir e tmp w = (Inr (), w1) \<and>
      build_opts (home e) url q tmp m cb ua ck = Inr opts \<and>
      YoutubeDL e opts = Inr y \<and>
      probe y url = Inr nfo \<and>
      \<not> (truthy (estimate_size nfo) \<and> the (estimate_size nfo) > m) \<and>
      extract_info_download opts y url
        (log_call (ExtractInfo url False) (log_call Construct w1)) = (Inr nfo2, w2) \<and>
      read_result e y nfo2 w2 = (Inr res, w3) \<and>
      r_size res > m"
  then have b: "download_body e opts url m w1 = (Inl FileTooLargeError, w3)"
    unfolding download_body_def Let_def by auto
  have "download_video e url q tmp m cb ua ck w =
           (case download_body e opts url m w1 of
              (Inl x, w2) \<Rightarrow> (Inl (reraise x), w2)
            | (Inr res, w2) \<Rightarrow> (Inr res, w2))"
    using h by (intro download_video_supported) simp_all
  then show "download_video e url q tmp m cb ua ck w = (Inl FileTooLargeError, w3)"
    unfolding b by (simp add: reraise_def)
  show "files w3 = files w2" using h read_result_files by blast
qed

theorem size_ceiling_witness:
  "r_size \<lparr> r_file_path = ''tmp/video.mp4'', r_title = ''Sample'', r_ext = ''mp4'', r_size = 1024 \<rparr>
     \<le> (2048 :: int) \<and>
   download_video (demo_env (demo_ydl None [WriteFile ''tmp/video.mp4'' 1024] None ''tmp/video.mp4''))
         (ustr_of ''https://youtu.be/test'') ''360p'' ''tmp'' 1000 None None None world0 =
     (Inl FileTooLargeError,
      \<lparr> dirs = [''tmp''], files = [(''tmp/video.mp4'', 1024)],
        calls = [Mkdir ''tmp'', Construct, ExtractInfo (ustr_of ''https://youtu.be/test'') False,
                 ExtractInfo (ustr_of ''https://youtu.be/test'') True, Stat ''tmp/video.mp4''] \<rparr>)"
proof
  have run: "download_video (demo_env (demo_ydl (Some 1024) [] (Some 1024) ''tmp/video.mp4''))
         (ustr_of ''https://youtu.be/test'') ''360p'' ''tmp'' 2048 None None None world0 =
     (Inr \<lparr> r_file_path = ''tmp/video.mp4'', r_title = ''Sample'', r_ext = ''mp4'', r_size = 1024 \<rparr>,
      \<lparr> dirs = [''tmp''], files = [],
        calls = [Mkdir ''tmp'', Construct, ExtractInfo (ustr_of ''https://youtu.be/test'') False,
                 ExtractInfo (ustr_of ''https://youtu.be/test'') True] \<rparr>)"
    by code_simp
  from size_ceiling[of "demo_env (demo_ydl (Some 1024) [] (Some 1024) ''tmp/video.mp4'')"
         "ustr_of ''https://youtu.be/test''" "''360p''" "''tmp''" 2048 None None None world0] run
  show "r_size \<lparr> r_file_path = ''tmp/video.mp4'', r_title = ''Sample'', r_ext = ''mp4'', r_size = 1024 \<rparr>
     \<le> (2048 :: int)" by simp
next
  let ?p = "''tmp/video.mp4''"
  let ?url = "ustr_of ''https://youtu.be/test''"
  let ?y = "demo_ydl None [WriteFile ?p 1024] None ?p"
  let ?e = "demo_env ?y"
  let ?w1 = "\<lparr> dirs = [''tmp''], files = [], calls = [Mkdir ''tmp''] \<rparr>"
  let ?w2 = "\<lparr> dirs = [''tmp''], files = [(?p, 1024)],
               calls = [Mkdir ''tmp'', Construct, ExtractInfo ?url False, ExtractInfo ?url True] \<rparr>"
  let ?w3 = "\<lparr> dirs = [''tmp''], files = [(?p, 1024)],
               calls = [Mkdir ''tmp'', Construct, ExtractInfo ?url False, ExtractInfo ?url True,
                        Stat ?p] \<rparr>"
  let ?nfo = "\<lparr> i_filesize = None, i_filesize_approx = None, i_formats = None,
                 i_title = Some ''Sample'', requested_downloads = None \<rparr>"
  let ?nfo2 = "\<lparr> i_filesize = None, i_filesize_approx = None, i_formats = None, i_title = None,
                  requested_downloads =
                    Some [\<lparr> d_filepath = Some ?p, d_filesize = None,
                             d_title = Some ''Sample'', d_ext = Some ''mp4'' \<rparr>] \<rparr>"
  let ?res = "\<lparr> r_file_path = ?p, r_title = ''Sample'', r_ext = ''mp4'', r_size = 1024 \<rparr>"
  obtain opts where o: "build_opts (home ?e) ?url ''360p'' ''tmp'' 1000 None None None = Inr opts"
    using build_opts_total by blast
  have 1: "re_match SUPPORTED_DOMAINS ?url" by code_simp
  have 2: "mkdir ?e ''tmp'' world0 = (Inr (), ?w1)" by code_simp
  have 3: "YoutubeDL ?e opts = Inr ?y" by (simp add: demo_env_def)
  have 4: "probe ?y ?url = Inr ?nfo" by (simp add: demo_ydl_def)
  have 5: "\<not> (truthy (estimate_size ?nfo) \<and> the (estimate_size ?nfo) > 1000)" by code_simp
  have 6: "extract_info_download opts ?y ?url (log_call (ExtractInfo ?url False) (log_call Construct ?w1))
             = (Inr ?nfo2, ?w2)"
    by (simp add: extract_info_download_def demo_ydl_def log_call_def)
  have 7: "read_result ?e ?y ?nfo2 ?w2 = (Inr ?res, ?w3)" by code_simp
  have 8: "r_size ?res > 1000" by simp
  from size_ceiling[of ?e ?url "''360p''" "''tmp''" 1000 None None None world0, THEN conjunct2,
      rule_format, of ?w1 opts ?y ?nfo ?nfo2 ?w2 ?res ?w3] o 1 2 3 4 5 6 7 8
  show "download_video ?e ?url ''360p'' ''tmp'' 1000 None None None world0 =
     (Inl FileTooLargeError, ?w3)" by simp
qed



subsection \<open>The estimate checked before the transfer\<close>

text \<open>
  C2. When the estimation phase yields an estimated size (from the filesize field, the
  filesize\_approx field or the largest size declared by a format) that exceeds
  max\_file\_bytes, download\_video raises FileTooLargeError before the transfer phase:
  the only calls made are the mkdir, the construction of the library object and the
  metadata query, and no file is created.
\<close>

theorem estimate_over_ceiling:
  assumes "re_match SUPPORTED_DOMAINS url"
    and "mkdir e tmp w = (Inr (), w1)"
    and "build_opts (home e) url q tmp m cb ua ck = Inr opts"
    and "YoutubeDL e opts = Inr y"
    and "probe y url = Inr nfo"
    and "estimate_size nfo = Some est"
    and "est > m"
  shows "\<exists>w'. download_video e url q tmp m cb ua ck w = (Inl FileTooLargeError, w') \<and>
           calls w' = calls w @ [Mkdir tmp, Construct, ExtractInfo url False] \<and>
           files w' = files w"
proof -
  have t: "truthy (estimate_size nfo) \<and> the (estimate_size nfo) > m"
    using assms(6,7) estimate_size_nonzero[OF assms(6)] by (simp add: truthy_def)
  have b: "download_body e opts url m w1 =
             (Inl FileTooLargeError, log_call (ExtractInfo url False) (log_call Construct w1))"
    unfolding download_body_def Let_def using assms(4,5) t by simp
  have v: "download_video e url q tmp m cb ua ck w =
             (Inl FileTooLargeError, log_call (ExtractInfo url False) (log_call Construct w1))"
    unfolding download_video_supported[OF assms(1-3)] b by (simp add: reraise_def)
  have w1: "calls w1 = calls w @ [Mkdir tmp] \<and> files w1 = files w"
    using assms(2) unfolding mkdir_def log_call_def Let_def by (auto split: if_splits)
  show ?thesis unfolding v using w1 by (simp add: log_call_def)
qed

theorem estimate_over_ceiling_witness:
  "\<exists>w'. download_video
           (demo_env (demo_ydl (Some 10000000) [WriteFile ''tmp/video.mp4'' 1024] (Some 1024) ''tmp/video.mp4''))
           (ustr_of ''https://youtu.be/test'') ''360p'' ''tmp'' 1024 None None None world0 =
             (Inl FileTooLargeError, w') \<and>
         calls w' = calls world0 @ [Mkdir ''tmp'', Construct, ExtractInfo (ustr_of ''https://youtu.be/test'') False] \<and>
         files w' = files world0"
proof -
  let ?p = "''tmp/video.mp4''"
  let ?url = "ustr_of ''https://youtu.be/test''"
  let ?y = "demo_ydl (Some 10000000) [WriteFile ?p 1024] (Some 1024) ?p"
  let ?e = "demo_env ?y"
  let ?w1 = "\<lparr> dirs = [''tmp''], files = [], calls = [Mkdir ''tmp''] \<rparr>"
  let ?nfo = "\<lparr> i_filesize = Some 10000000, i_filesize_approx = None, i_formats = None,
                 i_title = Some ''Sample'', requested_downloads = None \<rparr>"
  obtain opts where o: "build_opts (home ?e) ?url ''360p'' ''tmp'' 1024 None None None = Inr opts"
    using build_opts_total by blast
  have 1: "re_match SUPPORTED_DOMAINS ?url" by code_simp
  have 2: "mkdir ?e ''tmp'' world0 = (Inr (), ?w1)" by code_simp
  have 3: "YoutubeDL ?e opts = Inr ?y" by (simp add: demo_env_def)
  have 4: "probe ?y ?url = Inr ?nfo" by (simp add: demo_ydl_def)
  have 5: "estimate_size ?nfo = Some 10000000" by code_simp
  have 6: "(10000000 :: int) > 1024" by simp
  show ?thesis by (rule estimate_over_ceiling[OF 1 2 o 3 4 5 6])
qed


subsection \<open>Strict comparison at the three checkpoints\<close>

lemma hook_quiet:
  assumes "\<forall>f. cb = Some f \<longrightarrow> f d = None"
    and "py_or (total_bytes d) (total_bytes_estimate d) \<in> {None, Some 0, Some m}"
  shows "hook m cb d = None"
  using assms unfolding hook_def Let_def
  by (cases cb) (auto simp: truthy_def)

lemma run_steps_quiet:
  assumes "\<forall>d. Emit d \<in> set ss \<longrightarrow> run_hooks hs d = None"
  shows "fst (run_steps hs ss w) = None"
  using assms
proof (induction hs ss w rule: run_steps.induct)
  case (1 hs w)
  then show ?case by simp
next
  case (2 hs p n ss w)
  then show ?case by simp
next
  case (3 hs d ss w)
  then show ?case by simp
qed

text \<open>
  C10. The three size checks of download\_video compare strictly. When the estimate and
  every total reported during the transfer are absent, zero or exactly max\_file\_bytes,
  the sink does not raise, the library completes the transfer and the realized size is
  exactly max\_file\_bytes, no FileTooLargeError is raised: the result is returned, with
  the ceiling as its size.
\<close>

theorem at_ceiling_accepted:
  assumes "re_match SUPPORTED_DOMAINS url"
    and "mkdir e tmp w = (Inr (), w1)"
    and "build_opts (home e) url q tmp m cb ua ck = Inr opts"
    and "YoutubeDL e opts = Inr y"
    and "probe y url = Inr nfo"
    and "estimate_size nfo \<in> {None, Some 0, Some m}"
    and "\<forall>f. cb = Some f \<longrightarrow> (\<forall>d. f d = None)"
    and "\<forall>d. Emit d \<in> set (transfer_steps y url) \<longrightarrow>
           py_or (total_bytes d) (total_bytes_estimate d) \<in> {None, Some 0, Some m}"
    and "transfer y url = Inr nfo2"
    and "read_result e y nfo2
           (snd (run_steps (progress_hooks opts) (transfer_steps y url)
              (log_call (ExtractInfo url True)
                 (log_call (ExtractInfo url False) (log_call Construct w1))))) = (Inr res, w3)"
    and "r_size res = m"
  shows "download_video e url q tmp m cb ua ck w = (Inr res, w3)"
proof -
  let ?w2 = "log_call (ExtractInfo url True)
                 (log_call (ExtractInfo url False) (log_call Construct w1))"
  have hooks: "progress_hooks opts = [hook m cb]"
    using build_opts_fields(4)[OF assms(3)] .
  have "\<forall>d. Emit d \<in> set (transfer_steps y url) \<longrightarrow> run_hooks (progress_hooks opts) d = None"
    unfolding hooks using assms(7,8) hook_quiet[of cb _ m] by simp
  then have q: "fst (run_steps (progress_hooks opts) (transfer_steps y url) ?w2) = None"
    by (rule run_steps_quiet)
  obtain w2 where r: "run_steps (progress_hooks opts) (transfer_steps y url) ?w2 = (None, w2)"
    using q by (cases "run_steps (progress_hooks opts) (transfer_steps y url) ?w2") simp
  have x: "extract_info_download opts y url
             (log_call (ExtractInfo url False) (log_call Construct w1)) = (Inr nfo2, w2)"
    unfolding extract_info_download_def r using assms(9) by simp
  have rr: "read_result e y nfo2 w2 = (Inr res, w3)"
    using assms(10) unfolding r by simp
  have t: "\<not> (truthy (estimate_size nfo) \<and> the (estimate_size nfo) > m)"
    using assms(6) by (auto simp: truthy_def)
  have b: "download_body e opts url m w1 = (Inr res, w3)"
    unfolding download_body_def Let_def using assms(4,5,11) t x rr by simp
  show ?thesis
    unfolding download_video_supported[OF assms(1-3)] b by simp
qed


theorem at_ceiling_accepted_witness:
  "download_video
     (demo_env (demo_ydl (Some 1024)
        [Emit \<lparr> status = Some ''downloading'', total_bytes = Some 1024,
                 total_bytes_estimate = None, downloaded_bytes = Some 512 \<rparr>,
         WriteFile ''tmp/video.mp4'' 1024] None ''tmp/video.mp4''))
     (ustr_of ''https://youtu.be/test'') ''360p'' ''tmp'' 1024 (Some (\<lambda>d. None)) None None world0 =
   (Inr \<lparr> r_file_path = ''tmp/video.mp4'', r_title = ''Sample'', r_ext = ''mp4'', r_size = 1024 \<rparr>,
    \<lparr> dirs = [''tmp''], files = [(''tmp/video.mp4'', 1024)],
      calls = [Mkdir ''tmp'', Construct, ExtractInfo (ustr_of ''https://youtu.be/test'') False,
               ExtractInfo (ustr_of ''https://youtu.be/test'') True,
               Progress \<lparr> status = Some ''downloading'', total_bytes = Some 1024,
                          total_bytes_estimate = None, downloaded_bytes = Some 512 \<rparr>,
               Stat ''tmp/video.mp4''] \<rparr>)"
proof -
  let ?p = "''tmp/video.mp4''"
  let ?url = "ustr_of ''https://youtu.be/test''"
  let ?d = "\<lparr> status = Some ''downloading'', total_bytes = Some 1024,
               total_bytes_estimate = None, downloaded_bytes = Some 512 \<rparr>"
  let ?y = "demo_ydl (Some 1024) [Emit ?d, WriteFile ?p 1024] None ?p"
  let ?e = "demo_env ?y"
  let ?cb = "Some (\<lambda>d :: pevent. None :: exn option)"
  let ?w1 = "\<lparr> dirs = [''tmp''], files = [], calls = [Mkdir ''tmp''] \<rparr>"
  let ?w3 = "\<lparr> dirs = [''tmp''], files = [(?p, 1024)],
               calls = [Mkdir ''tmp'', Construct, ExtractInfo ?url False, ExtractInfo ?url True,
                        Progress ?d, Stat ?p] \<rparr>"
  let ?nfo = "\<lparr> i_filesize = Some 1024, i_filesize_approx = None, i_formats = None,
                 i_title = Some ''Sample'', requested_downloads = None \<rparr>"
  let ?nfo2 = "\<lparr> i_filesize = None, i_filesize_approx = None, i_formats = None, i_title = None,
                  requested_downloads =
                    Some [\<lparr> d_filepath = Some ?p, d_filesize = None,
                             d_title = Some ''Sample'', d_ext = Some ''mp4'' \<rparr>] \<rparr>"
  let ?res = "\<lparr> r_file_path = ?p, r_title = ''Sample'', r_ext = ''mp4'', r_size = 1024 \<rparr>"
  obtain opts where o: "build_opts (home ?e) ?url ''360p'' ''tmp'' 1024 ?cb None None = Inr opts"
    using build_opts_total by blast
  have hooks: "progress_hooks opts = [hook 1024 ?cb]"
    using build_opts_fields(4)[OF o] .
  have 1: "re_match SUPPORTED_DOMAINS ?url" by code_simp
  have 2: "mkdir ?e ''tmp'' world0 = (Inr (), ?w1)" by code_simp
  have 3: "YoutubeDL ?e opts = Inr ?y" by (simp add: demo_env_def)
  have 4: "probe ?y ?url = Inr ?nfo" by (simp add: demo_ydl_def)
  have "estimate_size ?nfo = Some 1024" by code_simp
  then have 5: "estimate_size ?nfo \<in> {None, Some 0, Some 1024}" by simp
  have 6: "\<forall>f. ?cb = Some f \<longrightarrow> (\<forall>d. f d = None)" by simp
  have "py_or (total_bytes ?d) (total_bytes_estimate ?d) = Some 1024" by code_simp
  then have 7: "\<forall>d. Emit d \<in> set (transfer_steps ?y ?url) \<longrightarrow>
           py_or (total_bytes d) (total_bytes_estimate d) \<in> {None, Some 0, Some 1024}"
    by (simp add: demo_ydl_def)
  have 8: "transfer ?y ?url = Inr ?nfo2" by (simp add: demo_ydl_def)
  have "read_result ?e ?y ?nfo2
           (snd (run_steps [hook 1024 ?cb] (transfer_steps ?y ?url)
              (log_call (ExtractInfo ?url True)
                 (log_call (ExtractInfo ?url False) (log_call Construct ?w1))))) = (Inr ?res, ?w3)"
    by code_simp
  then have 9: "read_result ?e ?y ?nfo2
           (snd (run_steps (progress_hooks opts) (transfer_steps ?y ?url)
              (log_call (ExtractInfo ?url True)
                 (log_call (ExtractInfo ?url False) (log_call Construct ?w1))))) = (Inr ?res, ?w3)"
    unfolding hooks .
  have 10: "r_size ?res = 1024" by simp
  show ?thesis by (rule at_ceiling_accepted[OF 1 2 o 3 4 5 6 7 8 9 10])
qed




section \<open>Properties of the URL classifier\<close>

text \<open>The code points a letter of the pattern matches, and those a character that is
  not a letter matches.\<close>

lemma ci_eq_letters:
  "ci_eq CHR ''i'' x \<longleftrightarrow> x \<in> {73, 105, 304, 305}"
  "ci_eq CHR ''s'' x \<longleftrightarrow> x \<in> {83, 115, 383}"
  "ci_eq CHR ''m'' x \<longleftrightarrow> x \<in> {77, 109}"
  "ci_eq CHR ''.'' x \<longleftrightarrow> x = 46"
  by (auto simp: ci_eq_def uni_lower_def case_equivalents_def lower_chr_def Let_def)

text \<open>A URL the pattern does not match is rejected before anything is done.\<close>

lemma unmatched_rejected:
  assumes "\<not> re_match SUPPORTED_DOMAINS url"
  shows "download_video e url q tmp m cb ua ck w = (Inl UnsupportedURLError, w)"
  using assms by (simp add: download_video_def)

text \<open>What the host of a URL is, and what the pattern accepts, on some examples.\<close>

lemma host_examples:
  "url_host (ustr_of ''evil.com/x?next=https://youtube.com/'') = None"
  "url_host (ustr_of ''https://user@YouTube.com:443/x?y'') = Some (ustr_of ''YouTube.com'')"
  "host_on_allow_list (url_host (ustr_of ''https://M.YouTube.com/x''))"
  "\<not> host_on_allow_list (url_host (ustr_of ''https://example.com/video''))"
  "\<not> re_match SUPPORTED_DOMAINS (ustr_of ''https://example.com/video'')"
  "re_match SUPPORTED_DOMAINS (ustr_of ''HTTPS://WWW.YouTube.com/watch'')"
  "re_match SUPPORTED_DOMAINS (ustr_of ''https://in'' @ [383] @ ustr_of ''tagram.com/'')"
  "re_match SUPPORTED_DOMAINS (ustr_of ''https://'' @ [304] @ ustr_of ''nstagram.com/'')"
  "\<not> re_match SUPPORTED_DOMAINS (ustr_of ''https://'' @ [8490] @ ustr_of ''nstagram.com/'')"
  by code_simp+

text \<open>
  C4. Every URL whose host is not on the allow-list is to be rejected by the classifier
  and by download\_video, before the directory is made and before the fetch library is
  touched. The code does not do so: re.IGNORECASE also matches the dotless i (U+0131)
  where the pattern has an i. The host of the URL below is not on the allow-list, yet
  SUPPORTED\_DOMAINS matches it and download\_video makes the directory, constructs the
  fetch library and runs both of its phases.
\<close>

theorem lookalike_host_accepted:
  "url_host (ustr_of ''https://'' @ [305] @ ustr_of ''nstagram.com/p/x'')
     = Some ([305] @ ustr_of ''nstagram.com'') \<and>
   \<not> host_on_allow_list (url_host (ustr_of ''https://'' @ [305] @ ustr_of ''nstagram.com/p/x'')) \<and>
   re_match SUPPORTED_DOMAINS (ustr_of ''https://'' @ [305] @ ustr_of ''nstagram.com/p/x'') \<and>
   download_video (demo_env (demo_ydl (Some 1024) [WriteFile ''tmp/video.mp4'' 1024] (Some 1024) ''tmp/video.mp4''))
     (ustr_of ''https://'' @ [305] @ ustr_of ''nstagram.com/p/x'') ''360p'' ''tmp'' 2048 None None None world0 =
     (Inr \<lparr> r_file_path = ''tmp/video.mp4'', r_title = ''Sample'', r_ext = ''mp4'', r_size = 1024 \<rparr>,
      \<lparr> dirs = [''tmp''], files = [(''tmp/video.mp4'', 1024)],
        calls = [Mkdir ''tmp'', Construct,
                 ExtractInfo (ustr_of ''https://'' @ [305] @ ustr_of ''nstagram.com/p/x'') False,
                 ExtractInfo (ustr_of ''https://'' @ [305] @ ustr_of ''nstagram.com/p/x'') True] \<rparr>)"
  by code_simp


section \<open>Properties of sanitize\_url\<close>

text \<open>
  C9. sanitize\_url is to be idempotent. It is not: it strips whitespace first and cuts
  at the first ampersand or question mark afterwards, so whitespace in front of the cut
  ends the result and a second call strips it. The text below reaches sanitize\_url
  through the /download command and is accepted by the classifier.
\<close>

theorem sanitize_url_not_idempotent:
  "parse_url_from_command (Some (ustr_of ''/download https://youtube.com/watch?v=a &t=1''))
     = Some (ustr_of ''https://youtube.com/watch?v=a &t=1'') \<and>
   re_match SUPPORTED_DOMAINS (ustr_of ''https://youtube.com/watch?v=a &t=1'') \<and>
   sanitize_url (ustr_of ''https://youtube.com/watch?v=a &t=1'') = ustr_of ''https://youtube.com/watch?v=a '' \<and>
   sanitize_url (sanitize_url (ustr_of ''https://youtube.com/watch?v=a &t=1''))
     = ustr_of ''https://youtube.com/watch?v=a'' \<and>
   sanitize_url (sanitize_url (ustr_of ''https://youtube.com/watch?v=a &t=1''))
     \<noteq> sanitize_url (ustr_of ''https://youtube.com/watch?v=a &t=1'')"
  by code_simp



section \<open>Properties of handle\_download\_callback\<close>

subsection \<open>The name of the temp directory\<close>

text \<open>
  C6. Two distinct requests are to get distinct temp directories. The name is made of
  the user's id and the clock reading cut to whole seconds, so two requests of one user
  within the same second get the same directory.
\<close>

theorem tmp_dir_shared:
  "(17000000002 / 10 :: rat) \<noteq> 17000000007 / 10 \<and>
   tmp_dir_for ''tmp'' 42 (17000000002 / 10) = ''tmp/dl_42_1700000000'' \<and>
   tmp_dir_for ''tmp'' 42 (17000000007 / 10) = ''tmp/dl_42_1700000000''"
  by code_simp


subsection \<open>Removing the temp directory\<close>

lemma safe_remove_never_raises: "fst (safe_remove os_error p w) = Inr ()"
  by (simp add: safe_remove_def)

lemma safe_remove_missing:
  assumes "\<not> path_exists p w"
  shows "safe_remove os_error p w = (Inr (), w)"
  using assms by (simp add: safe_remove_def)

text \<open>After a dispatch safe\_remove is called on the directory of the request, unless
  the edit that reports a failed download raises.\<close>

lemma report_failure_removes:
  assumes "\<not> raises c s"
  shows "Remove tmp \<in> set (fst (snd (report_failure c s tmp b)))"
  using assms by (simp add: report_failure_def)

lemma deliver_removes: "Remove tmp \<in> set (fst (snd (deliver c st tmp res b)))"
  by (simp add: deliver_def Let_def)

lemma report_failure_no_dispatch:
  "Dispatch u q t \<notin> set (fst (snd (report_failure c s tmp b)))"
  by (simp add: report_failure_def)

lemma deliver_no_dispatch: "Dispatch u q t \<notin> set (fst (snd (deliver c st tmp res b)))"
  by (simp add: deliver_def Let_def)

lemma cleanup_unless_report_raises:
  assumes "handle_download_callback e st c uid now cbdata b = (x, acts, b')"
    and "Dispatch u q tmp \<in> set acts"
    and "\<not> raises c EditUnsupported" and "\<not> raises c EditTooLarge"
    and "\<not> raises c EditFailed" and "\<not> raises c EditUnexpected"
  shows "Remove tmp \<in> set acts"
  using assms unfolding handle_download_callback_def Let_def
  by (auto simp: case_prod_beta deliver_removes report_failure_removes
        report_failure_no_dispatch deliver_no_dispatch
        split: list.splits option.splits if_splits sum.splits exn.splits)

text \<open>The same request, once with every call of the transport succeeding and once
  with the sending of the file and the report of that failing: safe\_remove runs and the
  directory is gone.\<close>

lemma cleanup_when_report_succeeds:
  "handle_download_callback
     (demo_env (demo_ydl None [WriteFile ''tmp/dl_42_1700000000/video.mp4'' 5000] None
                  ''tmp/dl_42_1700000000/video.mp4''))
     \<lparr> download_path = ''tmp'', max_file_bytes = 1000, ytdlp_user_agent = None,
       ytdlp_cookies_path = None \<rparr>
     \<lparr> member = True, raises = (\<lambda>s. False), rmtree_raises = False \<rparr>
     42 (17000000002 / 10) ''DL|u1|best''
     \<lparr> url_cache = [(''u1'', ustr_of ''https://youtu.be/test'')], url_counter = 1, disk = world0 \<rparr>
   = (None,
      [Ui EditSelected, MemberCheck, Ui AnswerProgress,
       Dispatch (ustr_of ''https://youtu.be/test'') ''best'' ''tmp/dl_42_1700000000'',
       Ui EditTooLarge, Remove ''tmp/dl_42_1700000000''],
      \<lparr> url_cache = [(''u1'', ustr_of ''https://youtu.be/test'')], url_counter = 1,
        disk = \<lparr> dirs = [], files = [],
                 calls = [Mkdir ''tmp/dl_42_1700000000'', Construct,
                          ExtractInfo (ustr_of ''https://youtu.be/test'') False,
                          ExtractInfo (ustr_of ''https://youtu.be/test'') True,
                          Stat ''tmp/dl_42_1700000000/video.mp4''] \<rparr> \<rparr>)"
  by code_simp

lemma cleanup_after_send_failure:
  "handle_download_callback
     (demo_env (demo_ydl None [WriteFile ''tmp/dl_42_1700000000/video.mp4'' 500] None
                  ''tmp/dl_42_1700000000/video.mp4''))
     \<lparr> download_path = ''tmp'', max_file_bytes = 1000, ytdlp_user_agent = None,
       ytdlp_cookies_path = None \<rparr>
     \<lparr> member = True, raises = (\<lambda>s. s = SendVideo \<or> s = EditSendError), rmtree_raises = False \<rparr>
     42 (17000000002 / 10) ''DL|u1|best''
     \<lparr> url_cache = [(''u1'', ustr_of ''https://youtu.be/test'')], url_counter = 1, disk = world0 \<rparr>
   = (Some OtherError,
      [Ui EditSelected, MemberCheck, Ui AnswerProgress,
       Dispatch (ustr_of ''https://youtu.be/test'') ''best'' ''tmp/dl_42_1700000000'',
       Ui SendVideo, Ui EditSendError, Remove ''tmp/dl_42_1700000000''],
      \<lparr> url_cache = [(''u1'', ustr_of ''https://youtu.be/test'')], url_counter = 1,
        disk = \<lparr> dirs = [], files = [],
                 calls = [Mkdir ''tmp/dl_42_1700000000'', Construct,
                          ExtractInfo (ustr_of ''https://youtu.be/test'') False,
                          ExtractInfo (ustr_of ''https://youtu.be/test'') True,
                          Stat ''tmp/dl_42_1700000000/video.mp4''] \<rparr> \<rparr>)"
  by code_simp


text \<open>
  C3. The temp directory is to be removed on every exit path of
  handle\_download\_callback. In the four \<open>except\<close> clauses that follow the download the
  progress message is edited before safe\_remove is called, outside any \<open>try\<close>. When
  that edit raises (the message is gone, say), the exception leaves the handler,
  safe\_remove is not called, and the directory and the file in it stay on the disk. Here
  the download ends in FileTooLargeError after the transfer.
\<close>

theorem cleanup_skipped_when_report_fails:
  "handle_download_callback
     (demo_env (demo_ydl None [WriteFile ''tmp/dl_42_1700000000/video.mp4'' 5000] None
                  ''tmp/dl_42_1700000000/video.mp4''))
     \<lparr> download_path = ''tmp'', max_file_bytes = 1000, ytdlp_user_agent = None,
       ytdlp_cookies_path = None \<rparr>
     \<lparr> member = True, raises = (\<lambda>s. s = EditTooLarge), rmtree_raises = False \<rparr>
     42 (17000000002 / 10) ''DL|u1|best''
     \<lparr> url_cache = [(''u1'', ustr_of ''https://youtu.be/test'')], url_counter = 1, disk = world0 \<rparr>
   = (Some OtherError,
      [Ui EditSelected, MemberCheck, Ui AnswerProgress,
       Dispatch (ustr_of ''https://youtu.be/test'') ''best'' ''tmp/dl_42_1700000000'',
       Ui EditTooLarge],
      \<lparr> url_cache = [(''u1'', ustr_of ''https://youtu.be/test'')], url_counter = 1,
        disk = \<lparr> dirs = [''tmp/dl_42_1700000000''],
                 files = [(''tmp/dl_42_1700000000/video.mp4'', 5000)],
                 calls = [Mkdir ''tmp/dl_42_1700000000'', Construct,
                          ExtractInfo (ustr_of ''https://youtu.be/test'') False,
                          ExtractInfo (ustr_of ''https://youtu.be/test'') True,
                          Stat ''tmp/dl_42_1700000000/video.mp4''] \<rparr> \<rparr>)"
  by code_simp



subsection \<open>The progress throttle\<close>

lemma throttled_edit_never_raises: "fst (throttled_edit now r body t) = Inr ()"
  by (simp add: throttled_edit_def)

lemma throttled_edit_drops:
  assumes "now - last_ts t < 3 / 2"
  shows "throttled_edit now r body t = (Inr (), t)"
  using assms by (simp add: throttled_edit_def)

lemma progress_cb_no_total:
  assumes "\<not> truthy (py_or (total_bytes d) (total_bytes_estimate d))"
  shows "progress_cb d = None"
  using assms by (simp add: progress_cb_def Let_def)

lemma spaced_step:
  assumes "spaced t"
  shows "spaced (snd (throttled_edit now r body t))"
proof (cases "now - last_ts t < 3 / 2")
  case True
  then show ?thesis using assms by (simp add: throttled_edit_def)
next
  case False
  then have l: "last_ts t + 3 / 2 \<le> now" by simp
  have "\<forall>x \<in> set (map fst (edits t)). x + 3 / 2 \<le> now"
  proof
    fix x assume "x \<in> set (map fst (edits t))"
    with assms have "x \<le> last_ts t" unfolding spaced_def by blast
    with l show "x + 3 / 2 \<le> now" by simp
  qed
  moreover from this have "\<forall>x \<in> set (map fst (edits t)). x \<le> now"
    by (auto intro: order_trans[of _ "_ + 3 / 2"])
  ultimately show ?thesis
    using assms False by (simp add: throttled_edit_def spaced_def sorted_wrt_append)
qed

lemma spaced_run:
  assumes "spaced t"
  shows "spaced (run_throttle es t)"
  using assms
proof (induction es arbitrary: t)
  case Nil
  then show ?case by simp
next
  case (Cons e es)
  obtain d now r where e: "e = (d, now, r)" by (cases e) auto
  show ?case
  proof (cases "progress_cb d")
    case None
    then show ?thesis using Cons e by simp
  next
    case (Some body)
    then show ?thesis using Cons.IH[OF spaced_step[OF Cons.prems]] e by simp
  qed
qed

lemma window_at_most_one:
  assumes "sorted_wrt (\<lambda>a b. a + 3 / 2 \<le> b) (xs :: rat list)"
  shows "length (filter (\<lambda>x. lo \<le> x \<and> x < lo + 3 / 2) xs) \<le> 1"
proof -
  let ?ys = "filter (\<lambda>x. lo \<le> x \<and> x < lo + 3 / 2) xs"
  have s: "sorted_wrt (\<lambda>a b. a + 3 / 2 \<le> b) ?ys"
    using assms by (rule sorted_wrt_filter)
  show ?thesis
  proof (rule ccontr)
    assume "\<not> length ?ys \<le> 1"
    then obtain a b zs where y: "?ys = a # b # zs"
      by (cases ?ys; cases "tl ?ys") auto
    with s have ab: "a + 3 / 2 \<le> b" by simp
    have "a \<in> set ?ys" "b \<in> set ?ys" using y by simp_all
    then have "lo \<le> a" "b < lo + 3 / 2" by simp_all
    with ab show False by simp
  qed
qed

text \<open>
  C5. Whatever raw progress events the throttle consumes, and whatever the clock reads
  when their tasks run, any interval of length 3/2 holds at most one call of
  \<open>edit_text\<close>, successful or not. An event without a usable total leaves the throttle
  as it was; a task that runs before 3/2 has elapsed since the last edit does nothing;
  and \<open>throttled_edit\<close> never raises, also when \<open>edit_text\<close> does.
\<close>

theorem throttle_rate:
  "(\<forall>lo. length (filter (\<lambda>x. lo \<le> x \<and> x < lo + 3 / 2)
                    (map fst (edits (run_throttle es throttle0)))) \<le> 1) \<and>
   (\<forall>d now r es' t. \<not> truthy (py_or (total_bytes d) (total_bytes_estimate d)) \<longrightarrow>
        run_throttle ((d, now, r) # es') t = run_throttle es' t) \<and>
   (\<forall>now r body t. now - last_ts t < 3 / 2 \<longrightarrow> throttled_edit now r body t = (Inr (), t)) \<and>
   (\<forall>now r body t. fst (throttled_edit now r body t) = Inr ())"
proof (intro conjI allI impI)
  fix lo
  have "spaced throttle0" by (simp add: spaced_def throttle0_def)
  then have "spaced (run_throttle es throttle0)" by (rule spaced_run)
  then have "sorted_wrt (\<lambda>a b. a + 3 / 2 \<le> b) (map fst (edits (run_throttle es throttle0)))"
    by (simp add: spaced_def)
  then show "length (filter (\<lambda>x. lo \<le> x \<and> x < lo + 3 / 2)
                    (map fst (edits (run_throttle es throttle0)))) \<le> 1"
    by (rule window_at_most_one)
next
  fix d :: pevent and now :: rat and r :: bool and es' t
  assume "\<not> truthy (py_or (total_bytes d) (total_bytes_estimate d))"
  then have "progress_cb d = None" by (rule progress_cb_no_total)
  then show "run_throttle ((d, now, r) # es') t = run_throttle es' t" by simp
next
  fix now :: rat and r :: bool and body :: progress_text and t :: throttle
  assume "now - last_ts t < 3 / 2"
  then show "throttled_edit now r body t = (Inr (), t)" by (rule throttled_edit_drops)
next
  fix now :: rat and r :: bool and body :: progress_text and t :: throttle
  show "fst (throttled_edit now r body t) = Inr ()" by (rule throttled_edit_never_raises)
qed

theorem throttle_rate_witness:
  "edits (run_throttle
      [(\<lparr> status = Some ''downloading'', total_bytes = Some 1000, total_bytes_estimate = None,
          downloaded_bytes = Some 100 \<rparr>, 10, False),
       (\<lparr> status = Some ''downloading'', total_bytes = Some 1000, total_bytes_estimate = None,
          downloaded_bytes = Some 200 \<rparr>, 21 / 2, False),
       (\<lparr> status = Some ''downloading'', total_bytes = None, total_bytes_estimate = Some 0,
          downloaded_bytes = Some 300 \<rparr>, 20, False),
       (\<lparr> status = Some ''downloading'', total_bytes = None, total_bytes_estimate = Some 1000,
          downloaded_bytes = Some 400 \<rparr>, 58 / 5, True)] throttle0)
     = [(10, \<lparr> pt_downloaded = 100, pt_total = 1000 \<rparr>, True),
        (58 / 5, \<lparr> pt_downloaded = 400, pt_total = 1000 \<rparr>, False)] \<and>
   length (filter (\<lambda>x. 10 \<le> x \<and> x < 10 + 3 / 2)
     (map fst (edits (run_throttle
      [(\<lparr> status = Some ''downloading'', total_bytes = Some 1000, total_bytes_estimate = None,
          downloaded_bytes = Some 100 \<rparr>, 10, False),
       (\<lparr> status = Some ''downloading'', total_bytes = Some 1000, total_bytes_estimate = None,
          downloaded_bytes = Some 200 \<rparr>, 21 / 2, False),
       (\<lparr> status = Some ''downloading'', total_bytes = None, total_bytes_estimate = Some 0,
          downloaded_bytes = Some 300 \<rparr>, 20, False),
       (\<lparr> status = Some ''downloading'', total_bytes = None, total_bytes_estimate = Some 1000,
          downloaded_bytes = Some 400 \<rparr>, 58 / 5, True)] throttle0)))) \<le> 1 \<and>
   run_throttle
      [(\<lparr> status = Some ''downloading'', total_bytes = None, total_bytes_estimate = Some 0,
          downloaded_bytes = Some 300 \<rparr>, 20, False)] throttle0 = throttle0 \<and>
   throttled_edit (21 / 2) False \<lparr> pt_downloaded = 200, pt_total = 1000 \<rparr>
      \<lparr> last_ts = 10, edits = [] \<rparr> = (Inr (), \<lparr> last_ts = 10, edits = [] \<rparr>)"
proof -
  let ?d3 = "\<lparr> status = Some ''downloading'', total_bytes = None, total_bytes_estimate = Some 0,
          downloaded_bytes = Some 300 \<rparr>"
  let ?es = "[(\<lparr> status = Some ''downloading'', total_bytes = Some 1000, total_bytes_estimate = None,
          downloaded_bytes = Some 100 \<rparr>, 10, False),
       (\<lparr> status = Some ''downloading'', total_bytes = Some 1000, total_bytes_estimate = None,
          downloaded_bytes = Some 200 \<rparr>, 21 / 2, False),
       (?d3, 20, False),
       (\<lparr> status = Some ''downloading'', total_bytes = None, total_bytes_estimate = Some 1000,
          downloaded_bytes = Some 400 \<rparr>, 58 / 5 :: rat, True)]"
  note t = throttle_rate[of ?es]
  have 1: "edits (run_throttle ?es throttle0)
     = [(10, \<lparr> pt_downloaded = 100, pt_total = 1000 \<rparr>, True),
        (58 / 5, \<lparr> pt_downloaded = 400, pt_total = 1000 \<rparr>, False)]"
    by code_simp
  have 2: "length (filter (\<lambda>x. 10 \<le> x \<and> x < 10 + 3 / 2)
             (map fst (edits (run_throttle ?es throttle0)))) \<le> 1"
    using t by blast
  have n: "\<not> truthy (py_or (total_bytes ?d3) (total_bytes_estimate ?d3))" by code_simp
  have "run_throttle ((?d3, 20, False) # []) throttle0 = run_throttle [] throttle0"
    using t n by blast
  then have 3: "run_throttle [(?d3, 20, False)] throttle0 = throttle0" by simp
  have l: "(21 / 2 :: rat) - last_ts \<lparr> last_ts = 10, edits = [] \<rparr> < 3 / 2" by simp
  have 4: "throttled_edit (21 / 2) False \<lparr> pt_downloaded = 200, pt_total = 1000 \<rparr>
      \<lparr> last_ts = 10, edits = [] \<rparr> = (Inr (), \<lparr> last_ts = 10, edits = [] \<rparr>)"
    using t l by blast
  show ?thesis using 1 2 3 4 by (intro conjI)
qed


subsection \<open>The order of quality selection, membership gate and dispatch\<close>

lemma report_failure_quiet:
  assumes "report_failure c s tmp b = (x, acts, b')"
    and "s \<in> {EditUnsupported, EditTooLarge, EditFailed, EditUnexpected}"
  shows "list_all quiet_act acts"
  using assms by (auto simp: report_failure_def quiet_act_def split: if_splits)

lemma deliver_quiet:
  assumes "deliver c st tmp res b = (x, acts, b')"
  shows "list_all quiet_act acts"
  using assms by (auto simp: deliver_def Let_def quiet_act_def split: if_splits)

lemma prompt_acts:
  assumes "prompt_for_quality c url b = (x, acts, b')"
  shows "acts = [Ui AnswerUnsupported] \<or>
         (\<not> member c \<and> acts = [MemberCheck, Ui AnswerGate]) \<or>
         (member c \<and> acts = [MemberCheck, Ui AnswerQuality])"
  using assms unfolding prompt_for_quality_def Let_def
  by (auto split: if_splits prod.splits)

lemma callback_acts:
  assumes "handle_download_callback e st c uid now cbdata b = (x, acts, b')"
  shows "acts = [Ui AlertBadRequest] \<or> acts = [Ui AlertStale] \<or>
         (\<not> member c \<and> acts = [Ui EditSelected, MemberCheck, Ui AnswerGate]) \<or>
         (member c \<and> acts = [Ui EditSelected, MemberCheck, Ui AnswerProgress]) \<or>
         (member c \<and> (\<exists>u q t rest. acts = [Ui EditSelected, MemberCheck, Ui AnswerProgress,
                                              Dispatch u q t] @ rest \<and> list_all quiet_act rest))"
  using assms unfolding handle_download_callback_def Let_def
  by (auto split: list.splits option.splits if_splits prod.splits sum.splits exn.splits
        dest: deliver_quiet report_failure_quiet)


lemma quiet_absent:
  assumes "list_all quiet_act rest"
  shows "Ui AnswerGate \<notin> set rest" and "Ui AnswerQuality \<notin> set rest"
    and "MemberCheck \<notin> set rest" and "Dispatch u q t \<notin> set rest"
  using assms by (auto simp: list_all_iff quiet_act_def)

lemma request_shapes:
  fixes A
  assumes "A = request_acts e st c1 c2 uid now url quality b"
  shows "A = [Ui AnswerUnsupported] \<or>
         (\<not> member c1 \<and> A = [MemberCheck, Ui AnswerGate]) \<or>
         (member c1 \<and> A = [MemberCheck, Ui AnswerQuality]) \<or>
         (member c1 \<and> A = [MemberCheck, Ui AnswerQuality, Ui AlertBadRequest]) \<or>
         (member c1 \<and> A = [MemberCheck, Ui AnswerQuality, Ui AlertStale]) \<or>
         (member c1 \<and> \<not> member c2 \<and>
            A = [MemberCheck, Ui AnswerQuality, Ui EditSelected, MemberCheck, Ui AnswerGate]) \<or>
         (member c1 \<and> member c2 \<and>
            A = [MemberCheck, Ui AnswerQuality, Ui EditSelected, MemberCheck, Ui AnswerProgress]) \<or>
         (member c1 \<and> member c2 \<and>
            (\<exists>u q t rest. A = [MemberCheck, Ui AnswerQuality, Ui EditSelected, MemberCheck,
                                 Ui AnswerProgress, Dispatch u q t] @ rest \<and>
                            list_all quiet_act rest))"
proof -
  obtain x1 acts1 b1 where p: "prompt_for_quality c1 url b = (x1, acts1, b1)"
    by (cases "prompt_for_quality c1 url b") auto
  note ps = prompt_acts[OF p]
  show ?thesis
  proof (cases "x1 \<noteq> None \<or> Ui AnswerQuality \<notin> set acts1")
    case True
    then have "A = acts1" using assms p by (simp add: request_acts_def)
    with ps show ?thesis by auto
  next
    case False
    obtain x2 acts2 b2 where h: "handle_download_callback e st c2 uid now
        (''DL|'' @ (''u'' @ int_str (url_counter b1)) @ ''|'' @ quality) b1 = (x2, acts2, b2)"
      by (cases "handle_download_callback e st c2 uid now
        (''DL|'' @ (''u'' @ int_str (url_counter b1)) @ ''|'' @ quality) b1") auto
    from False ps have a1: "member c1" "acts1 = [MemberCheck, Ui AnswerQuality]" by auto
    have "A = acts1 @ acts2" using assms p h False by (simp add: request_acts_def)
    with a1 callback_acts[OF h] show ?thesis by auto
  qed
qed

text \<open>
  C7, as the code has it. In one request the membership check comes before the
  quality-selection UI, and the quality-selection UI before the dispatch of the fetch.
  The fetch is dispatched only when both membership checks succeed, and then no gating
  display is shown. A gating display is shown only when a check fails: at the first
  check in place of the quality-selection UI, at the second check after it; no dispatch
  follows it.
\<close>

theorem request_order:
  fixes A
  assumes "A = request_acts e st c1 c2 uid now url quality b"
  shows "(\<forall>u q t. Dispatch u q t \<in> set A \<longrightarrow>
            member c1 \<and> member c2 \<and> Ui AnswerGate \<notin> set A \<and>
            earlier MemberCheck (Ui AnswerQuality) A \<and>
            earlier (Ui AnswerQuality) (Dispatch u q t) A) \<and>
         (Ui AnswerQuality \<in> set A \<longrightarrow> member c1 \<and> earlier MemberCheck (Ui AnswerQuality) A) \<and>
         (Ui AnswerGate \<in> set A \<longrightarrow>
            (\<forall>u q t. Dispatch u q t \<notin> set A) \<and>
            (if member c1 then \<not> member c2 \<and> earlier (Ui AnswerQuality) (Ui AnswerGate) A
             else Ui AnswerQuality \<notin> set A))"
  using request_shapes[OF assms]
  by (elim disjE conjE exE) (auto dest: quiet_absent)

theorem request_order_witness:
  "request_acts (demo_env (demo_ydl None [] (Some 500) ''tmp/video.mp4''))
     \<lparr> download_path = ''tmp'', max_file_bytes = 1000, ytdlp_user_agent = None,
       ytdlp_cookies_path = None \<rparr>
     \<lparr> member = True, raises = (\<lambda>s. False), rmtree_raises = False \<rparr>
     \<lparr> member = False, raises = (\<lambda>s. False), rmtree_raises = False \<rparr>
     42 1700000000 (ustr_of ''https://youtu.be/test'') ''best'' bot0
     = [MemberCheck, Ui AnswerQuality, Ui EditSelected, MemberCheck, Ui AnswerGate] \<and>
   earlier (Ui AnswerQuality) (Ui AnswerGate)
     [MemberCheck, Ui AnswerQuality, Ui EditSelected, MemberCheck, Ui AnswerGate] \<and>
   earlier MemberCheck (Ui AnswerQuality)
     [MemberCheck, Ui AnswerQuality, Ui EditSelected, MemberCheck, Ui AnswerGate] \<and>
   request_acts (demo_env (demo_ydl None [] (Some 500) ''tmp/video.mp4''))
     \<lparr> download_path = ''tmp'', max_file_bytes = 1000, ytdlp_user_agent = None,
       ytdlp_cookies_path = None \<rparr>
     \<lparr> member = True, raises = (\<lambda>s. False), rmtree_raises = False \<rparr>
     \<lparr> member = True, raises = (\<lambda>s. False), rmtree_raises = False \<rparr>
     42 1700000000 (ustr_of ''https://youtu.be/test'') ''best'' bot0
     = [MemberCheck, Ui AnswerQuality, Ui EditSelected, MemberCheck, Ui AnswerProgress,
        Dispatch (ustr_of ''https://youtu.be/test'') ''best'' ''tmp/dl_42_1700000000'',
        Ui SendVideo, Ui DeleteProgress, Remove ''tmp/dl_42_1700000000''] \<and>
   earlier (Ui AnswerQuality)
     (Dispatch (ustr_of ''https://youtu.be/test'') ''best'' ''tmp/dl_42_1700000000'')
     [MemberCheck, Ui AnswerQuality, Ui EditSelected, MemberCheck, Ui AnswerProgress,
      Dispatch (ustr_of ''https://youtu.be/test'') ''best'' ''tmp/dl_42_1700000000'',
      Ui SendVideo, Ui DeleteProgress, Remove ''tmp/dl_42_1700000000'']"
proof -
  let ?e = "demo_env (demo_ydl None [] (Some 500) ''tmp/video.mp4'')"
  let ?st = "\<lparr> download_path = ''tmp'', max_file_bytes = 1000, ytdlp_user_agent = None,
       ytdlp_cookies_path = None \<rparr>"
  let ?c1 = "\<lparr> member = True, raises = (\<lambda>s :: site. False), rmtree_raises = False \<rparr>"
  let ?c2 = "\<lparr> member = False, raises = (\<lambda>s :: site. False), rmtree_raises = False \<rparr>"
  let ?A = "[MemberCheck, Ui AnswerQuality, Ui EditSelected, MemberCheck, Ui AnswerGate]"
  let ?D = "Dispatch (ustr_of ''https://youtu.be/test'') ''best'' ''tmp/dl_42_1700000000''"
  let ?B = "[MemberCheck, Ui AnswerQuality, Ui EditSelected, MemberCheck, Ui AnswerProgress,
             ?D, Ui SendVideo, Ui DeleteProgress, Remove ''tmp/dl_42_1700000000'']"
  have a: "request_acts ?e ?st ?c1 ?c2 42 1700000000 (ustr_of ''https://youtu.be/test'') ''best'' bot0
             = ?A"
    by code_simp
  have b: "request_acts ?e ?st ?c1 ?c1 42 1700000000 (ustr_of ''https://youtu.be/test'') ''best'' bot0
             = ?B"
    by code_simp
  note t = request_order[OF a[symmetric]]
  note u = request_order[OF b[symmetric]]
  have g: "Ui AnswerGate \<in> set ?A" by simp
  have q: "Ui AnswerQuality \<in> set ?A" by simp
  have d: "?D \<in> set ?B" by simp
  have m: "member ?c1" by simp
  from t g m have 1: "earlier (Ui AnswerQuality) (Ui AnswerGate) ?A" by simp
  from t q have 2: "earlier MemberCheck (Ui AnswerQuality) ?A" by blast
  from u d have 3: "earlier (Ui AnswerQuality) ?D ?B" by blast
  show ?thesis using a 1 2 b 3 by (intro conjI)
qed

text \<open>The claim as stated fails twice: a user who is not a member gets the gating display
  and never a quality-selection UI, and for a member the fetch is dispatched with no
  gating display before it.\<close>

theorem request_order_counterexample:
  "request_acts (demo_env (demo_ydl None [] None ''tmp/video.mp4''))
     \<lparr> download_path = ''tmp'', max_file_bytes = 1000, ytdlp_user_agent = None,
       ytdlp_cookies_path = None \<rparr>
     \<lparr> member = False, raises = (\<lambda>s. False), rmtree_raises = False \<rparr>
     \<lparr> member = True, raises = (\<lambda>s. False), rmtree_raises = False \<rparr>
     42 1700000000 (ustr_of ''https://youtu.be/test'') ''best'' bot0
     = [MemberCheck, Ui AnswerGate] \<and>
   \<not> earlier (Ui AnswerQuality) (Ui AnswerGate) [MemberCheck, Ui AnswerGate] \<and>
   request_acts (demo_env (demo_ydl None [] (Some 500) ''tmp/video.mp4''))
     \<lparr> download_path = ''tmp'', max_file_bytes = 1000, ytdlp_user_agent = None,
       ytdlp_cookies_path = None \<rparr>
     \<lparr> member = True, raises = (\<lambda>s. False), rmtree_raises = False \<rparr>
     \<lparr> member = True, raises = (\<lambda>s. False), rmtree_raises = False \<rparr>
     42 1700000000 (ustr_of ''https://youtu.be/test'') ''best'' bot0
     = [MemberCheck, Ui AnswerQuality, Ui EditSelected, MemberCheck, Ui AnswerProgress,
        Dispatch (ustr_of ''https://youtu.be/test'') ''best'' ''tmp/dl_42_1700000000'',
        Ui SendVideo, Ui DeleteProgress, Remove ''tmp/dl_42_1700000000''] \<and>
   \<not> earlier (Ui AnswerGate)
        (Dispatch (ustr_of ''https://youtu.be/test'') ''best'' ''tmp/dl_42_1700000000'')
        [MemberCheck, Ui AnswerQuality, Ui EditSelected, MemberCheck, Ui AnswerProgress,
         Dispatch (ustr_of ''https://youtu.be/test'') ''best'' ''tmp/dl_42_1700000000'',
         Ui SendVideo, Ui DeleteProgress, Remove ''tmp/dl_42_1700000000'']"
  by code_simp


end
